theory Spec2Isabelle
  imports Main "HOL-Library.Sublist"
begin

section \<open>JavaScript strings\<close>

text \<open>
  The server (\<^verbatim>\<open>src/index.ts\<close>) works on JavaScript strings. A string is modelled as
  a \<^typ>\<open>string\<close>, a list of 8-bit characters: these are the strings all of whose code
  units lie below 256 (the ISO-8859-1 range), one \<^typ>\<open>char\<close> per code unit. The degree
  sign of the thermostat texts is the code unit \<open>0xB0\<close>.
\<close>

abbreviation sq :: char where "sq \<equiv> CHR 0x27"
abbreviation dq :: char where "dq \<equiv> CHR 0x22"
abbreviation nl :: char where "nl \<equiv> CHR 0x0A"
abbreviation degree :: char where "degree \<equiv> CHR 0xB0"

text \<open>
  \<^verbatim>\<open>s.replace(/'/g, "'\"'\"'")\<close>: every single quote becomes the five code units
  \<^verbatim>\<open>'"'"'\<close>; the replacement text holds no \<^verbatim>\<open>$\<close>, so it is inserted literally.
\<close>

fun escapeQuotes :: "string \<Rightarrow> string" where
  "escapeQuotes [] = []"
| "escapeQuotes (c # cs) =
     (if c = sq then [sq, dq, sq, dq, sq] @ escapeQuotes cs else c # escapeQuotes cs)"

text \<open>
  The template \<^verbatim>\<open>'${s.replace(/'/g, "'\"'\"'")}'\<close> of \<^verbatim>\<open>runAppleScript\<close> and
  \<^verbatim>\<open>runShortcut\<close>: the escaped text between two single quotes.
\<close>

definition quote :: "string \<Rightarrow> string" where
  "quote raw = sq # escapeQuotes raw @ [sq]"

section \<open>Shell literals\<close>

text \<open>
  The reading of one shell word made of quoted and unquoted pieces, after the quoting rules
  of the POSIX shell (Shell Command Language, section 2.2). It is the reference against which
  \<^const>\<open>quote\<close> is checked, not part of the server.
  \<^item> Between single quotes every character stands for itself; a single quote ends the piece.
  \<^item> Between double quotes a backslash keeps its special meaning only in front of
    \<^verbatim>\<open>$\<close>, a backquote, a double quote, a backslash and a newline; an unescaped
    \<^verbatim>\<open>$\<close> or backquote starts an expansion, so the word is no literal (\<open>None\<close>).
  \<^item> Outside quotes a backslash quotes the next character (a backslash-newline pair
    disappears), and every character that is special to the shell when unquoted is
    refused (\<open>None\<close>): it would end the word or start an expansion.
  An unterminated quote is refused as well.
\<close>

datatype quoting = Bare | Single | Double

definition special :: "char \<Rightarrow> bool" where
  "special c \<longleftrightarrow>
     c \<in> set ''|&;<>()$'' \<or> c = CHR 0x60 \<or> c = CHR 0x5C \<or> c = dq \<or> c = sq
     \<or> c = CHR 0x20 \<or> c = CHR 0x09 \<or> c = nl \<or> c \<in> set ''*?[#~=%''"

fun sh_literal :: "quoting \<Rightarrow> string \<Rightarrow> string option" where
  "sh_literal Bare [] = Some []"
| "sh_literal Bare (c # cs) =
     (if c = sq then sh_literal Single cs
      else if c = dq then sh_literal Double cs
      else if c = CHR 0x5C then
        (case cs of
           [] \<Rightarrow> None
         | d # ds \<Rightarrow> if d = nl then sh_literal Bare ds
                    else map_option ((#) d) (sh_literal Bare ds))
      else if special c then None
      else map_option ((#) c) (sh_literal Bare cs))"
| "sh_literal Single [] = None"
| "sh_literal Single (c # cs) =
     (if c = sq then sh_literal Bare cs
      else map_option ((#) c) (sh_literal Single cs))"
| "sh_literal Double [] = None"
| "sh_literal Double (c # cs) =
     (if c = dq then sh_literal Bare cs
      else if c = CHR 0x5C then
        (case cs of
           [] \<Rightarrow> None
         | d # ds \<Rightarrow> if d = CHR ''$'' \<or> d = CHR 0x60 \<or> d = dq \<or> d = CHR 0x5C
                      then map_option ((#) d) (sh_literal Double ds)
                    else if d = nl then sh_literal Double ds
                    else map_option (\<lambda>r. c # d # r) (sh_literal Double ds))
      else if c = CHR ''$'' \<or> c = CHR 0x60 then None
      else map_option ((#) c) (sh_literal Double cs))"

section \<open>Library operations on strings\<close>

text \<open>
  \<^verbatim>\<open>String.prototype.trim\<close> removes white space and line terminators from both ends.
  Below 256 these are tab, line feed, vertical tab, form feed, carriage return, space and
  the no-break space.
\<close>

definition isWhiteSpace :: "char \<Rightarrow> bool" where
  "isWhiteSpace c \<longleftrightarrow>
     c = CHR 0x09 \<or> c = CHR 0x0A \<or> c = CHR 0x0B \<or> c = CHR 0x0C \<or> c = CHR 0x0D
     \<or> c = CHR 0x20 \<or> c = CHR 0xA0"

definition trim :: "string \<Rightarrow> string" where
  "trim s = rev (dropWhile isWhiteSpace (rev (dropWhile isWhiteSpace s)))"

text \<open>
  \<^verbatim>\<open>String.prototype.toLowerCase\<close>: below 256 the letters with a lower-case partner
  are \<open>A\<close> to \<open>Z\<close> and \<open>0xC0\<close> to \<open>0xDE\<close> without the multiplication sign \<open>0xD7\<close>;
  the partner lies 32 higher. The result has one code unit per code unit.
\<close>

definition lowerChar :: "char \<Rightarrow> char" where
  "lowerChar c =
     (let n = (of_char c :: nat)
      in if 65 \<le> n \<and> n \<le> 90 then char_of (n + 32)
         else if 192 \<le> n \<and> n \<le> 222 \<and> n \<noteq> 215 then char_of (n + 32)
         else c)"

definition toLowerCase :: "string \<Rightarrow> string" where
  "toLowerCase s = map lowerChar s"

text \<open>\<^verbatim>\<open>s.includes(t)\<close>: \<open>t\<close> occurs in \<open>s\<close> as a contiguous piece.\<close>

definition includes_sub :: "string \<Rightarrow> string \<Rightarrow> bool" where
  "includes_sub s t = sublist t s"

text \<open>\<^verbatim>\<open>s.split('\n')\<close>: the pieces between line feeds; never the empty list.\<close>

fun split_lines :: "string \<Rightarrow> string list" where
  "split_lines [] = [[]]"
| "split_lines (c # cs) =
     (if c = nl then [] # split_lines cs
      else (case split_lines cs of
              [] \<Rightarrow> [[c]]
            | l # ls \<Rightarrow> (c # l) # ls))"

text \<open>\<^verbatim>\<open>xs.join('\n')\<close>.\<close>

fun join_lines :: "string list \<Rightarrow> string" where
  "join_lines [] = []"
| "join_lines [l] = l"
| "join_lines (l # ls) = l @ nl # join_lines ls"

text \<open>
  A value that may be \<^verbatim>\<open>undefined\<close> is an \<open>option\<close>. \<open>truthy\<close> is the test of
  \<^verbatim>\<open>v ? a : b\<close> on such a string (\<^verbatim>\<open>undefined\<close> and the empty string are falsy);
  \<open>str\<close> is its rendering \<^verbatim>\<open>${v}\<close> in a template literal.
\<close>

definition truthy :: "string option \<Rightarrow> bool" where
  "truthy v = (case v of None \<Rightarrow> False | Some s \<Rightarrow> s \<noteq> [])"

definition str :: "string option \<Rightarrow> string" where
  "str v = (case v of None \<Rightarrow> ''undefined'' | Some s \<Rightarrow> s)"

text \<open>
  Numbers. A JavaScript number is a double; the handler uses the temperature only through
  its rendering \<^verbatim>\<open>${temperature}\<close>. The embedding covers the safe integers, the integral
  numbers of magnitude below \<open>2^53\<close>: each is a double, and its rendering is its plain
  decimal numeral. The type has no other value, so fractions, \<^verbatim>\<open>NaN\<close>, the infinities and
  the numbers rendered with rounded digits or an exponent are outside the model.
  \<open>SafeInteger n\<close> is the number \<open>n\<close>, \<open>integer_value\<close> its value.
\<close>

typedef safe_integer = "{n :: int. - 9007199254740992 < n \<and> n < 9007199254740992}"
  morphisms integer_value SafeInteger
  by (rule exI [of _ 0]) simp

fun digits :: "nat \<Rightarrow> string" where
  "digits n =
     (if n < 10 then [''0123456789'' ! n]
      else digits (n div 10) @ [''0123456789'' ! (n mod 10)])"

declare digits.simps [simp del]

definition numberToString :: "safe_integer \<Rightarrow> string" where
  "numberToString n =
     (if integer_value n < 0 then CHR ''-'' # digits (nat (- integer_value n))
      else digits (nat (integer_value n)))"

definition num :: "safe_integer option \<Rightarrow> string" where
  "num v = (case v of None \<Rightarrow> ''undefined'' | Some n \<Rightarrow> numberToString n)"

text \<open>
  The reading of a decimal numeral, for comparison with \<^const>\<open>numberToString\<close>: an optional
  minus sign and then one or more digits, most significant first. A numeral with a
  superfluous leading zero, and minus zero, are refused, so that every integer has one
  numeral only.
\<close>

definition digitValue :: "char \<Rightarrow> nat option" where
  "digitValue =
     map_of [(CHR ''0'', 0), (CHR ''1'', 1), (CHR ''2'', 2), (CHR ''3'', 3), (CHR ''4'', 4),
             (CHR ''5'', 5), (CHR ''6'', 6), (CHR ''7'', 7), (CHR ''8'', 8), (CHR ''9'', 9)]"

fun decimalNat :: "nat \<Rightarrow> string \<Rightarrow> nat option" where
  "decimalNat acc [] = Some acc"
| "decimalNat acc (c # cs) =
     (case digitValue c of
        None \<Rightarrow> None
      | Some d \<Rightarrow> decimalNat (10 * acc + d) cs)"

definition decimalValue :: "string \<Rightarrow> int option" where
  "decimalValue s =
     (case s of
        [] \<Rightarrow> None
      | c # cs \<Rightarrow>
          if c = CHR ''-''
          then (case cs of
                  [] \<Rightarrow> None
                | d # ds \<Rightarrow>
                    if d = CHR ''0'' then None
                    else map_option (\<lambda>n. - int n) (decimalNat 0 cs))
          else if c = CHR ''0'' \<and> cs \<noteq> [] then None
          else map_option int (decimalNat 0 s))"

section \<open>The external programs\<close>

text \<open>
  A thrown error object: its \<^verbatim>\<open>message\<close> and, for the errors of
  \<^verbatim>\<open>child_process.execSync\<close>, the text the child wrote to its error stream.
\<close>

record js_error =
  message :: string
  stderr :: "string option"

definition Error :: "string \<Rightarrow> js_error" where
  "Error m = \<lparr>message = m, stderr = None\<rparr>"

text \<open>
  The outside world is a function from command lines to outcomes: the command prints
  to its output, or \<^verbatim>\<open>execSync\<close> throws (non-zero exit, spawn failure, output over
  the \<^verbatim>\<open>maxBuffer\<close> ceiling). \<open>execSync\<close> returns the outcome together with the
  command lines it has run.
\<close>

datatype exec_result = Returns string | Throws js_error

type_synonym exec_env = "string \<Rightarrow> exec_result"

definition execSync :: "exec_env \<Rightarrow> string \<Rightarrow> exec_result \<times> string list" where
  "execSync env command = (env command, [command])"

text \<open>\<^verbatim>\<open>err.stderr || err.message\<close>\<close>

definition diagnostic :: "js_error \<Rightarrow> string" where
  "diagnostic err = (if truthy (stderr err) then str (stderr err) else message err)"

definition runAppleScript :: "exec_env \<Rightarrow> string \<Rightarrow> (js_error + string) \<times> string list" where
  "runAppleScript env script =
     (case execSync env (''osascript -e '' @ quote script) of
        (Returns out, cmds) \<Rightarrow> (Inr (trim out), cmds)
      | (Throws err, cmds) \<Rightarrow> (Inl (Error (''AppleScript error: '' @ diagnostic err)), cmds))"

text \<open>
  The message of the \<^verbatim>\<open>TypeError\<close> that Node (version 18 and later) raises for
  \<^verbatim>\<open>name.replace\<close> when \<^verbatim>\<open>name\<close> is \<^verbatim>\<open>undefined\<close>.
\<close>

definition replaceOfUndefined :: string where
  "replaceOfUndefined =
     ''Cannot read properties of undefined (reading '' @ [sq] @ ''replace'' @ [sq] @ '')''"

text \<open>
  \<^verbatim>\<open>runShortcut(name, input?)\<close>. The declared type of \<^verbatim>\<open>name\<close> is \<^verbatim>\<open>string\<close>, but the
  handler passes on what the request holds, so \<^verbatim>\<open>undefined\<close> can arrive: then
  \<^verbatim>\<open>name.replace\<close> throws inside the \<^verbatim>\<open>try\<close>, before any command is run.
\<close>

definition runShortcut ::
    "exec_env \<Rightarrow> string option \<Rightarrow> string option \<Rightarrow> (js_error + string) \<times> string list" where
  "runShortcut env name input =
     (case name of
        None \<Rightarrow> (Inl (Error (''Shortcut error: '' @ replaceOfUndefined)), [])
      | Some n \<Rightarrow>
          (let inputPart = (if truthy input then '' -i '' @ quote (str input) else [])
           in case execSync env (''shortcuts run '' @ quote n @ inputPart) of
                (Returns out, cmds) \<Rightarrow> (Inr (trim out), cmds)
              | (Throws err, cmds) \<Rightarrow> (Inl (Error (''Shortcut error: '' @ diagnostic err)), cmds)))"

section \<open>Requests and responses\<close>

text \<open>
  The argument object of a request, as far as the handler reads it: one field per property
  it looks up, \<open>None\<close> when the property is missing. String properties hold strings and
  \<^verbatim>\<open>temperature\<close> a number, as the casts \<^verbatim>\<open>args as { ... }\<close> of the handler declare.
  A request always carries an argument object (a mapping, possibly empty).
\<close>

record arguments =
  scene :: "string option"
  shortcutName :: "string option"
  action :: "string option"
  filter_arg :: "string option"
  room :: "string option"
  temperature :: "safe_integer option"
  unit :: "string option"

record request =
  name :: string
  arguments :: arguments

record content_block =
  type :: string
  "text" :: string

record response =
  content :: "content_block list"
  isError :: "bool option"

text \<open>The argument object \<^verbatim>\<open>{}\<close>.\<close>

definition no_arguments :: arguments where
  "no_arguments =
     \<lparr>scene = None, shortcutName = None, action = None, filter_arg = None, room = None,
      temperature = None, unit = None\<rparr>"

text \<open>\<^verbatim>\<open>{ content: [{ type: "text", text: t }] }\<close>, without and with \<^verbatim>\<open>isError: true\<close>.\<close>

definition reply :: "string \<Rightarrow> response" where
  "reply t = \<lparr>content = [\<lparr>type = ''text'', text = t\<rparr>], isError = None\<rparr>"

definition failure :: "string \<Rightarrow> response" where
  "failure t = \<lparr>content = [\<lparr>type = ''text'', text = t\<rparr>], isError = Some True\<rparr>"

text \<open>The names of the tools catalogue (\<^verbatim>\<open>ListToolsRequestSchema\<close> handler).\<close>

definition operations :: "string list" where
  "operations =
     [''home_open'', ''home_run_scene'', ''home_control_device'', ''home_list_shortcuts'',
      ''home_lights_on'', ''home_lights_off'', ''home_set_thermostat'', ''home_lock_doors'',
      ''home_unlock_doors'', ''home_get_status'']"

section \<open>The handler, one definition per case of the switch\<close>

text \<open>
  Each case returns the response (\<open>Inr\<close>) or the error it lets escape to the outer
  \<^verbatim>\<open>catch\<close> (\<open>Inl\<close>), and the command lines run.
\<close>

type_synonym outcome = "(js_error + response) \<times> string list"

definition home_open :: "exec_env \<Rightarrow> outcome" where
  \<open>home_open env =
     (case runAppleScript env ''tell application "Home" to activate'' of
        (Inl error, cmds) \<Rightarrow> (Inl error, cmds)
      | (Inr _, cmds) \<Rightarrow> (Inr (reply ''Home app opened''), cmds))\<close>

definition home_run_scene :: "exec_env \<Rightarrow> arguments \<Rightarrow> outcome" where
  \<open>home_run_scene env args =
     (case runShortcut env (scene args) None of
        (Inr _, cmds) \<Rightarrow> (Inr (reply (''Activated scene: '' @ str (scene args))), cmds)
      | (Inl _, cmds) \<Rightarrow>
          (Inr (reply (''To run scene "'' @ str (scene args)
             @ ''", please create a Shortcut with that name that activates the HomeKit scene.'')),
           cmds))\<close>

definition home_control_device :: "exec_env \<Rightarrow> arguments \<Rightarrow> outcome" where
  \<open>home_control_device env args =
     (case runShortcut env (shortcutName args) (action args) of
        (Inr _, cmds) \<Rightarrow>
          (Inr (reply (''Executed shortcut: '' @ str (shortcutName args)
             @ (if truthy (action args) then '' with action: '' @ str (action args) else []))),
           cmds)
      | (Inl error, cmds) \<Rightarrow>
          (Inr (failure (''Error running shortcut "'' @ str (shortcutName args) @ ''": ''
             @ message error)),
           cmds))\<close>

text \<open>
  The lines \<^verbatim>\<open>home_list_shortcuts\<close> keeps (\<^verbatim>\<open>homeRelated\<close>), from the lower-cased
  filter and the output of \<^verbatim>\<open>shortcuts list\<close>.
\<close>

definition keyword :: "string \<Rightarrow> bool" where
  "keyword s \<longleftrightarrow>
     includes_sub (toLowerCase s) ''light'' \<or>
     includes_sub (toLowerCase s) ''home'' \<or>
     includes_sub (toLowerCase s) ''scene'' \<or>
     includes_sub (toLowerCase s) ''lock'' \<or>
     includes_sub (toLowerCase s) ''thermostat'' \<or>
     includes_sub (toLowerCase s) ''door'' \<or>
     includes_sub (toLowerCase s) ''room''"

definition homeRelated :: "string option \<Rightarrow> string \<Rightarrow> string list" where
  "homeRelated filter' result =
     (let shortcuts = filter (\<lambda>s. trim s \<noteq> []) (split_lines result)
      in if truthy filter'
         then filter (\<lambda>s. includes_sub (toLowerCase s) (str filter')) shortcuts
         else filter keyword shortcuts)"

definition home_list_shortcuts :: "exec_env \<Rightarrow> arguments \<Rightarrow> outcome" where
  \<open>home_list_shortcuts env args =
     (let filter' = map_option toLowerCase (filter_arg args)
      in case execSync env ''shortcuts list'' of
           (Returns result, cmds) \<Rightarrow>
             (if length (homeRelated filter' result) = 0
              then (Inr (reply (if truthy filter'
                      then ''No shortcuts found matching: '' @ str filter'
                      else ''No Home-related shortcuts found. Create Shortcuts in the Shortcuts app to control your Home devices.'')),
                    cmds)
              else (Inr (reply (''Available Shortcuts:'' @ [nl]
                      @ join_lines (homeRelated filter' result))), cmds))
         | (Throws _, cmds) \<Rightarrow>
             (Inr (failure ''Error listing shortcuts. Make sure Shortcuts app is available.''),
              cmds))\<close>

definition home_lights_on :: "exec_env \<Rightarrow> arguments \<Rightarrow> outcome" where
  \<open>home_lights_on env args =
     (let room = room args;
          command = (if truthy room then ''turn on '' @ str room @ '' lights''
                     else ''turn on the lights'');
          shortcutName = (if truthy room then str room @ '' Lights On'' else ''Lights On'')
      in case runShortcut env (Some shortcutName) None of
           (Inr _, cmds) \<Rightarrow>
             (Inr (reply (''Lights on'' @ (if truthy room then '' in '' @ str room else []))),
              cmds)
         | (Inl _, cmds) \<Rightarrow>
             (Inr (reply (''To turn on lights''
                @ (if truthy room then '' in '' @ str room else [])
                @ '', create a Shortcut named "''
                @ (if truthy room then str room @ '' Lights On'' else ''Lights On'')
                @ ''" that controls your HomeKit lights.'' @ [nl, nl]
                @ ''Alternatively, you can say to Siri: "'' @ command @ ''"'')),
              cmds))\<close>

definition home_lights_off :: "exec_env \<Rightarrow> arguments \<Rightarrow> outcome" where
  \<open>home_lights_off env args =
     (let room = room args;
          command = (if truthy room then ''turn off '' @ str room @ '' lights''
                     else ''turn off the lights'');
          shortcutName = (if truthy room then str room @ '' Lights Off'' else ''Lights Off'')
      in case runShortcut env (Some shortcutName) None of
           (Inr _, cmds) \<Rightarrow>
             (Inr (reply (''Lights off'' @ (if truthy room then '' in '' @ str room else []))),
              cmds)
         | (Inl _, cmds) \<Rightarrow>
             (Inr (reply (''To turn off lights''
                @ (if truthy room then '' in '' @ str room else [])
                @ '', create a Shortcut named "''
                @ (if truthy room then str room @ '' Lights Off'' else ''Lights Off'')
                @ ''" that controls your HomeKit lights.'' @ [nl, nl]
                @ ''Alternatively, you can say to Siri: "'' @ command @ ''"'')),
              cmds))\<close>

definition home_set_thermostat :: "exec_env \<Rightarrow> arguments \<Rightarrow> outcome" where
  \<open>home_set_thermostat env args =
     (let temperature = temperature args;
          unit = (case unit args of None \<Rightarrow> ''fahrenheit'' | Some u \<Rightarrow> u);
          tempStr = num temperature @ '' degrees '' @ unit
      in case runShortcut env (Some ''Set Thermostat'') (Some tempStr) of
           (Inr _, cmds) \<Rightarrow>
             (Inr (reply (''Thermostat set to '' @ num temperature @ [degree]
                @ (if unit = ''celsius'' then ''C'' else ''F''))),
              cmds)
         | (Inl _, cmds) \<Rightarrow>
             (Inr (reply (''To set thermostat to '' @ num temperature @ [degree]
                @ (if unit = ''celsius'' then ''C'' else ''F'')
                @ '', create a Shortcut named "Set Thermostat" that controls your HomeKit thermostat.''
                @ [nl, nl]
                @ ''Alternatively, you can say to Siri: "Set the thermostat to '' @ tempStr
                @ ''"'')),
              cmds))\<close>

definition home_lock_doors :: "exec_env \<Rightarrow> outcome" where
  \<open>home_lock_doors env =
     (case runShortcut env (Some ''Lock Doors'') None of
        (Inr _, cmds) \<Rightarrow> (Inr (reply ''Doors locked''), cmds)
      | (Inl _, cmds) \<Rightarrow>
          (Inr (reply (''To lock doors, create a Shortcut named "Lock Doors" that controls your HomeKit locks.''
             @ [nl, nl] @ ''Alternatively, you can say to Siri: "Lock all doors"'')),
           cmds))\<close>

definition home_unlock_doors :: "exec_env \<Rightarrow> outcome" where
  \<open>home_unlock_doors env =
     (case runShortcut env (Some ''Unlock Doors'') None of
        (Inr _, cmds) \<Rightarrow> (Inr (reply ''Doors unlocked''), cmds)
      | (Inl _, cmds) \<Rightarrow>
          (Inr (reply (''To unlock doors, create a Shortcut named "Unlock Doors" that controls your HomeKit locks.''
             @ [nl, nl] @ ''Alternatively, you can say to Siri: "Unlock all doors"'')),
           cmds))\<close>

definition home_get_status :: "exec_env \<Rightarrow> outcome" where
  \<open>home_get_status env =
     (case runAppleScript env ''tell application "Home" to activate'' of
        (Inl error, cmds) \<Rightarrow> (Inl error, cmds)
      | (Inr _, cmds) \<Rightarrow>
          (Inr (reply ''Home app opened. Note: HomeKit device status is not accessible via AppleScript. View status in the Home app.''),
           cmds))\<close>

text \<open>
  The \<^verbatim>\<open>switch\<close> on the request's name, with its \<^verbatim>\<open>default\<close> branch.
\<close>

definition dispatch :: "exec_env \<Rightarrow> request \<Rightarrow> outcome" where
  "dispatch env request =
     (let args = arguments request
      in if name request = ''home_open'' then home_open env
         else if name request = ''home_run_scene'' then home_run_scene env args
         else if name request = ''home_control_device'' then home_control_device env args
         else if name request = ''home_list_shortcuts'' then home_list_shortcuts env args
         else if name request = ''home_lights_on'' then home_lights_on env args
         else if name request = ''home_lights_off'' then home_lights_off env args
         else if name request = ''home_set_thermostat'' then home_set_thermostat env args
         else if name request = ''home_lock_doors'' then home_lock_doors env
         else if name request = ''home_unlock_doors'' then home_unlock_doors env
         else if name request = ''home_get_status'' then home_get_status env
         else (Inr (failure (''Unknown tool: '' @ name request)), []))"

text \<open>
  The outer \<^verbatim>\<open>try\<close> around the switch: its \<^verbatim>\<open>catch\<close> turns an escaping error into a
  response.
\<close>

definition outer_catch :: "outcome \<Rightarrow> response \<times> string list" where
  "outer_catch d =
     (case d of
        (Inr r, cmds) \<Rightarrow> (r, cmds)
      | (Inl error, cmds) \<Rightarrow> (failure (''Error: '' @ message error), cmds))"

text \<open>
  The request handler. The result is the response and the command lines run, in order.
\<close>

definition handleToolCall :: "exec_env \<Rightarrow> request \<Rightarrow> response \<times> string list" where
  "handleToolCall env request = outer_catch (dispatch env request)"

definition respond :: "exec_env \<Rightarrow> request \<Rightarrow> response" where
  "respond env request = fst (handleToolCall env request)"

definition invoked :: "exec_env \<Rightarrow> request \<Rightarrow> string list" where
  "invoked env request = snd (handleToolCall env request)"

section \<open>Simulated external programs\<close>

text \<open>
  The two worlds the tests set up with \<^verbatim>\<open>mockedExecSync\<close>: every command prints the
  same output (\<^verbatim>\<open>mockReturnValue\<close>), or every command throws the same error
  (\<^verbatim>\<open>mockImplementation\<close> with a \<^verbatim>\<open>throw\<close>).
\<close>

definition mockReturnValue :: "string \<Rightarrow> exec_env" where
  "mockReturnValue out command = Returns out"

definition mockThrow :: "js_error \<Rightarrow> exec_env" where
  "mockThrow err command = Throws err"

section \<open>The listing as the specification words it\<close>

text \<open>
  For comparison with \<^const>\<open>homeRelated\<close>, the lines the specification says
  \<^verbatim>\<open>home_list_shortcuts\<close> keeps: the output is split into lines and the lines made of white
  space only are dropped; with a filter argument the lines containing it as a
  case-insensitive substring stay, without one the lines containing one of the keywords.
  \<open>ci_contains s t\<close>: \<open>t\<close> occurs in \<open>s\<close> when case is ignored.
\<close>

definition ci_contains :: "string \<Rightarrow> string \<Rightarrow> bool" where
  "ci_contains s t \<longleftrightarrow> sublist (toLowerCase t) (toLowerCase s)"

definition keyword_set :: "string list" where
  "keyword_set = [''light'', ''home'', ''scene'', ''lock'', ''thermostat'', ''door'', ''room'']"

definition spec_lines :: "string option \<Rightarrow> string \<Rightarrow> string list" where
  "spec_lines filter' out =
     (let lines = filter (\<lambda>s. \<not> list_all isWhiteSpace s) (split_lines out)
      in case filter' of
           Some f \<Rightarrow> filter (\<lambda>s. ci_contains s f) lines
         | None \<Rightarrow> filter (\<lambda>s. list_ex (ci_contains s) keyword_set) lines)"

section \<open>Basic facts\<close>

lemma mock_simps [simp]:
  "mockReturnValue out command = Returns out"
  "mockThrow err command = Throws err"
  by (simp_all add: mockReturnValue_def mockThrow_def)

lemma truthy_simps [simp]: "truthy None = False" "truthy (Some s) = (s \<noteq> [])"
  by (simp_all add: truthy_def)

lemma str_simps [simp]: "str None = ''undefined''" "str (Some s) = s"
  by (simp_all add: str_def)

lemma runAppleScript_Returns:
  "env (''osascript -e '' @ quote script) = Returns out \<Longrightarrow>
   runAppleScript env script = (Inr (trim out), [''osascript -e '' @ quote script])"
  by (simp add: runAppleScript_def execSync_def)

lemma runAppleScript_Throws:
  "env (''osascript -e '' @ quote script) = Throws err \<Longrightarrow>
   runAppleScript env script =
     (Inl (Error (''AppleScript error: '' @ diagnostic err)), [''osascript -e '' @ quote script])"
  by (simp add: runAppleScript_def execSync_def)

lemma runShortcut_Returns:
  "env (''shortcuts run '' @ quote n @ (if truthy input then '' -i '' @ quote (str input) else []))
     = Returns out \<Longrightarrow>
   runShortcut env (Some n) input =
     (Inr (trim out),
      [''shortcuts run '' @ quote n @ (if truthy input then '' -i '' @ quote (str input) else [])])"
  by (simp add: runShortcut_def execSync_def Let_def)

lemma runShortcut_Throws:
  "env (''shortcuts run '' @ quote n @ (if truthy input then '' -i '' @ quote (str input) else []))
     = Throws err \<Longrightarrow>
   runShortcut env (Some n) input =
     (Inl (Error (''Shortcut error: '' @ diagnostic err)),
      [''shortcuts run '' @ quote n @ (if truthy input then '' -i '' @ quote (str input) else [])])"
  by (simp add: runShortcut_def execSync_def Let_def)

lemma runShortcut_None:
  "runShortcut env None input = (Inl (Error (''Shortcut error: '' @ replaceOfUndefined)), [])"
  by (simp add: runShortcut_def)

lemma dispatch_cases:
  "name request = ''home_open'' \<Longrightarrow> dispatch env request = home_open env"
  "name request = ''home_run_scene'' \<Longrightarrow> dispatch env request = home_run_scene env (arguments request)"
  "name request = ''home_control_device'' \<Longrightarrow>
     dispatch env request = home_control_device env (arguments request)"
  "name request = ''home_list_shortcuts'' \<Longrightarrow>
     dispatch env request = home_list_shortcuts env (arguments request)"
  "name request = ''home_lights_on'' \<Longrightarrow> dispatch env request = home_lights_on env (arguments request)"
  "name request = ''home_lights_off'' \<Longrightarrow> dispatch env request = home_lights_off env (arguments request)"
  "name request = ''home_set_thermostat'' \<Longrightarrow>
     dispatch env request = home_set_thermostat env (arguments request)"
  "name request = ''home_lock_doors'' \<Longrightarrow> dispatch env request = home_lock_doors env"
  "name request = ''home_unlock_doors'' \<Longrightarrow> dispatch env request = home_unlock_doors env"
  "name request = ''home_get_status'' \<Longrightarrow> dispatch env request = home_get_status env"
  by (simp_all add: dispatch_def)

lemma dispatch_default:
  "name request \<notin> set operations \<Longrightarrow>
   dispatch env request = (Inr (failure (''Unknown tool: '' @ name request)), [])"
  by (simp add: dispatch_def operations_def)

lemma soft_case:
  "\<exists>t cmds. (case p of (Inl e, c) \<Rightarrow> (Inr (reply (g e)), c) | (Inr x, c) \<Rightarrow> (Inr (reply (f x)), c))
     = (Inr (reply t) :: js_error + response, cmds :: string list)"
  by (cases p; cases "fst p") auto

lemma soft_shapes:
  "\<exists>t cmds. home_run_scene env args = (Inr (reply t), cmds)"
  "\<exists>t cmds. home_lights_on env args = (Inr (reply t), cmds)"
  "\<exists>t cmds. home_lights_off env args = (Inr (reply t), cmds)"
  "\<exists>t cmds. home_set_thermostat env args = (Inr (reply t), cmds)"
  "\<exists>t cmds. home_lock_doors env = (Inr (reply t), cmds)"
  "\<exists>t cmds. home_unlock_doors env = (Inr (reply t), cmds)"
  unfolding home_run_scene_def home_lights_on_def home_lights_off_def home_set_thermostat_def
    home_lock_doors_def home_unlock_doors_def Let_def
  by (rule soft_case)+


lemma open_case:
  "\<exists>cmds. (\<exists>t. (case p of (Inl e, c) \<Rightarrow> (Inl e, c) | (Inr x, c) \<Rightarrow> (Inr (reply (f x)), c))
             = (Inr (reply t) :: js_error + response, cmds :: string list))
     \<or> (\<exists>e'. (case p of (Inl e, c) \<Rightarrow> (Inl e, c) | (Inr x, c) \<Rightarrow> (Inr (reply (f x)), c))
             = (Inl e', cmds))"
  by (cases p; cases "fst p") auto

lemma control_case:
  "\<exists>cmds. (\<exists>t. (case p of (Inl e, c) \<Rightarrow> (Inr (failure (g e)), c) | (Inr x, c) \<Rightarrow> (Inr (reply (f x)), c))
             = (Inr (reply t) :: js_error + response, cmds :: string list))
     \<or> (\<exists>t. (case p of (Inl e, c) \<Rightarrow> (Inr (failure (g e)), c) | (Inr x, c) \<Rightarrow> (Inr (reply (f x)), c))
             = (Inr (failure t), cmds))"
  by (cases p; cases "fst p") auto

lemma list_case:
  "\<exists>cmds. (\<exists>t. (case p of (Returns x, c) \<Rightarrow> (if b x then (Inr (reply (f x)), c) else (Inr (reply (g x)), c))
                        | (Throws e, c) \<Rightarrow> (Inr (failure h), c))
             = (Inr (reply t) :: js_error + response, cmds :: string list))
     \<or> (\<exists>t. (case p of (Returns x, c) \<Rightarrow> (if b x then (Inr (reply (f x)), c) else (Inr (reply (g x)), c))
                        | (Throws e, c) \<Rightarrow> (Inr (failure h), c))
             = (Inr (failure t), cmds))"
  by (cases p; cases "fst p") auto

lemma hard_shapes:
  "\<exists>cmds. (\<exists>t. home_open env = (Inr (reply t), cmds)) \<or> (\<exists>e. home_open env = (Inl e, cmds))"
  "\<exists>cmds. (\<exists>t. home_get_status env = (Inr (reply t), cmds)) \<or> (\<exists>e. home_get_status env = (Inl e, cmds))"
  "\<exists>cmds. (\<exists>t. home_control_device env args = (Inr (reply t), cmds))
     \<or> (\<exists>t. home_control_device env args = (Inr (failure t), cmds))"
  "\<exists>cmds. (\<exists>t. home_list_shortcuts env args = (Inr (reply t), cmds))
     \<or> (\<exists>t. home_list_shortcuts env args = (Inr (failure t), cmds))"
  unfolding home_open_def home_get_status_def home_control_device_def home_list_shortcuts_def
    Let_def
     apply (rule open_case)
    apply (rule open_case)
   apply (rule control_case)
  apply (rule list_case)
  done

lemma dispatch_rule:
  assumes "name request = ''home_open'' \<Longrightarrow> P (home_open env)"
    and "name request = ''home_run_scene'' \<Longrightarrow> P (home_run_scene env (arguments request))"
    and "name request = ''home_control_device'' \<Longrightarrow> P (home_control_device env (arguments request))"
    and "name request = ''home_list_shortcuts'' \<Longrightarrow> P (home_list_shortcuts env (arguments request))"
    and "name request = ''home_lights_on'' \<Longrightarrow> P (home_lights_on env (arguments request))"
    and "name request = ''home_lights_off'' \<Longrightarrow> P (home_lights_off env (arguments request))"
    and "name request = ''home_set_thermostat'' \<Longrightarrow> P (home_set_thermostat env (arguments request))"
    and "name request = ''home_lock_doors'' \<Longrightarrow> P (home_lock_doors env)"
    and "name request = ''home_unlock_doors'' \<Longrightarrow> P (home_unlock_doors env)"
    and "name request = ''home_get_status'' \<Longrightarrow> P (home_get_status env)"
    and "name request \<notin> set operations \<Longrightarrow> P (Inr (failure (''Unknown tool: '' @ name request)), [])"
  shows "P (dispatch env request)"
proof (cases "name request \<in> set operations")
  case False
  from assms(11) [OF False] show ?thesis by (simp only: dispatch_default [OF False])
next
  case True
  then consider "name request = ''home_open''" | "name request = ''home_run_scene''"
    | "name request = ''home_control_device''" | "name request = ''home_list_shortcuts''"
    | "name request = ''home_lights_on''" | "name request = ''home_lights_off''"
    | "name request = ''home_set_thermostat''" | "name request = ''home_lock_doors''"
    | "name request = ''home_unlock_doors''" | "name request = ''home_get_status''"
    unfolding operations_def by (elim set_ConsD [elim_format] disjE) (simp_all only: list.set empty_iff)
  then show ?thesis
  proof cases
    case 1
    from assms(1) [OF 1] show ?thesis by (simp only: dispatch_cases(1) [OF 1])
  next
    case 2
    from assms(2) [OF 2] show ?thesis by (simp only: dispatch_cases(2) [OF 2])
  next
    case 3
    from assms(3) [OF 3] show ?thesis by (simp only: dispatch_cases(3) [OF 3])
  next
    case 4
    from assms(4) [OF 4] show ?thesis by (simp only: dispatch_cases(4) [OF 4])
  next
    case 5
    from assms(5) [OF 5] show ?thesis by (simp only: dispatch_cases(5) [OF 5])
  next
    case 6
    from assms(6) [OF 6] show ?thesis by (simp only: dispatch_cases(6) [OF 6])
  next
    case 7
    from assms(7) [OF 7] show ?thesis by (simp only: dispatch_cases(7) [OF 7])
  next
    case 8
    from assms(8) [OF 8] show ?thesis by (simp only: dispatch_cases(8) [OF 8])
  next
    case 9
    from assms(9) [OF 9] show ?thesis by (simp only: dispatch_cases(9) [OF 9])
  next
    case 10
    from assms(10) [OF 10] show ?thesis by (simp only: dispatch_cases(10) [OF 10])
  qed
qed


lemma outer_catch_simps [simp]:
  "outer_catch (Inr r, cmds) = (r, cmds)"
  "outer_catch (Inl e, cmds) = (failure (''Error: '' @ message e), cmds)"
  by (simp_all add: outer_catch_def)

lemma sh_literal_escaped:
  "sh_literal Single (escapeQuotes s @ sq # rest) = map_option ((@) s) (sh_literal Bare rest)"
proof (induction s)
  case Nil
  show ?case by (simp add: option.map_ident)
next
  case (Cons c s)
  show ?case
  proof (cases "c = sq")
    case True
    then show ?thesis
      using Cons.IH by (simp add: option.map_comp comp_def)
  next
    case False
    then show ?thesis
      using Cons.IH by (simp add: option.map_comp comp_def)
  qed
qed

lemma sh_literal_quote: "sh_literal Bare (quote s) = Some s"
proof -
  have "sh_literal Bare (quote s) = sh_literal Single (escapeQuotes s @ sq # [])"
    by (simp add: quote_def)
  also have "\<dots> = Some s"
    by (simp only: sh_literal_escaped) simp
  finally show ?thesis .
qed

lemma respond_shape: "\<exists>t. respond env request = reply t \<or> respond env request = failure t"
proof -
  let ?P = "\<lambda>d. \<exists>t. fst (outer_catch d) = reply t \<or> fst (outer_catch d) = failure t"
  have "?P (dispatch env request)"
  proof (rule dispatch_rule)
    show "?P (home_open env)" using hard_shapes(1) [of env] by auto
    show "?P (home_get_status env)" using hard_shapes(2) [of env] by auto
    show "?P (home_control_device env (arguments request))"
      using hard_shapes(3) [of env "arguments request"] by auto
    show "?P (home_list_shortcuts env (arguments request))"
      using hard_shapes(4) [of env "arguments request"] by auto
    show "?P (home_run_scene env (arguments request))"
      using soft_shapes(1) [of env "arguments request"] by auto
    show "?P (home_lights_on env (arguments request))"
      using soft_shapes(2) [of env "arguments request"] by auto
    show "?P (home_lights_off env (arguments request))"
      using soft_shapes(3) [of env "arguments request"] by auto
    show "?P (home_set_thermostat env (arguments request))"
      using soft_shapes(4) [of env "arguments request"] by auto
    show "?P (home_lock_doors env)" using soft_shapes(5) [of env] by auto
    show "?P (home_unlock_doors env)" using soft_shapes(6) [of env] by auto
    show "?P (Inr (failure (''Unknown tool: '' @ name request)), [])" by auto
  qed
  then show ?thesis by (simp add: respond_def handleToolCall_def)
qed

lemma handle_control_device:
  "handleToolCall env \<lparr>name = ''home_control_device'', arguments = args\<rparr>
     = outer_catch (home_control_device env args)"
  by (simp add: handleToolCall_def dispatch_cases)

lemma handle_set_thermostat:
  "handleToolCall env \<lparr>name = ''home_set_thermostat'', arguments = args\<rparr>
     = outer_catch (home_set_thermostat env args)"
  by (simp add: handleToolCall_def dispatch_cases)

lemma handle_lights_on:
  "handleToolCall env \<lparr>name = ''home_lights_on'', arguments = args\<rparr>
     = outer_catch (home_lights_on env args)"
  by (simp add: handleToolCall_def dispatch_cases)

lemma handle_list_shortcuts:
  "handleToolCall env \<lparr>name = ''home_list_shortcuts'', arguments = args\<rparr>
     = outer_catch (home_list_shortcuts env args)"
  by (simp add: handleToolCall_def dispatch_cases)

lemma diagnostic_cases:
  "diagnostic err =
     (case stderr err of None \<Rightarrow> message err | Some s \<Rightarrow> if s \<noteq> [] then s else message err)"
  by (simp add: diagnostic_def split: option.split)

lemma digits_72: "numberToString (SafeInteger 72) = ''72''"
  and digits_22: "numberToString (SafeInteger 22) = ''22''"
  by (simp_all add: numberToString_def SafeInteger_inverse digits.simps)

lemma num_simps [simp]: "num None = ''undefined''" "num (Some n) = numberToString n"
  by (simp_all add: num_def)

lemma set_thermostat_eq:
  "home_set_thermostat env args =
     (let unit' = (case unit args of None \<Rightarrow> ''fahrenheit'' | Some u \<Rightarrow> u);
          tempStr = num (temperature args) @ '' degrees '' @ unit';
          command = ''shortcuts run '' @ quote ''Set Thermostat'' @ '' -i '' @ quote tempStr
      in (case env command of
            Returns out \<Rightarrow>
              Inr (reply (''Thermostat set to '' @ num (temperature args) @ [degree]
                @ (if unit' = ''celsius'' then ''C'' else ''F'')))
          | Throws e \<Rightarrow>
              Inr (reply (''To set thermostat to '' @ num (temperature args) @ [degree]
                @ (if unit' = ''celsius'' then ''C'' else ''F'')
                @ '', create a Shortcut named \"Set Thermostat\" that controls your HomeKit thermostat.''
                @ [nl, nl]
                @ ''Alternatively, you can say to Siri: \"Set the thermostat to '' @ tempStr
                @ ''\"'')),
          [command]))"
  unfolding home_set_thermostat_def runShortcut_def execSync_def Let_def
  by (cases "env (''shortcuts run '' @ quote ''Set Thermostat'' @ '' -i ''
        @ quote (num (temperature args) @ '' degrees ''
            @ (case unit args of None \<Rightarrow> ''fahrenheit'' | Some u \<Rightarrow> u)))")
    simp_all

lemma lights_on_eq:
  "home_lights_on env args =
     (let shortcutName = (if truthy (room args) then str (room args) @ '' Lights On''
                          else ''Lights On'');
          command = ''shortcuts run '' @ quote shortcutName
      in (case env command of
            Returns out \<Rightarrow>
              Inr (reply (''Lights on''
                @ (if truthy (room args) then '' in '' @ str (room args) else [])))
          | Throws e \<Rightarrow>
              Inr (reply (''To turn on lights''
                @ (if truthy (room args) then '' in '' @ str (room args) else [])
                @ '', create a Shortcut named \"'' @ shortcutName
                @ ''\" that controls your HomeKit lights.'' @ [nl, nl]
                @ ''Alternatively, you can say to Siri: \"''
                @ (if truthy (room args) then ''turn on '' @ str (room args) @ '' lights''
                   else ''turn on the lights'')
                @ ''\"'')),
          [command]))"
  unfolding home_lights_on_def runShortcut_def execSync_def Let_def
  by (cases "env (''shortcuts run ''
        @ quote (if truthy (room args) then str (room args) @ '' Lights On'' else ''Lights On''))")
    simp_all

lemma trim_Nil_iff: "trim s = [] \<longleftrightarrow> list_all isWhiteSpace s"
proof (cases "dropWhile isWhiteSpace s")
  case Nil
  have "trim s = []" unfolding trim_def Nil by simp
  moreover from Nil have "list_all isWhiteSpace s"
    by (simp add: list_all_iff)
  ultimately show ?thesis by simp
next
  case (Cons c cs)
  then have ne: "dropWhile isWhiteSpace s \<noteq> []" by simp
  then have "\<not> isWhiteSpace (hd (dropWhile isWhiteSpace s))"
    by (rule hd_dropWhile)
  with Cons have c: "\<not> isWhiteSpace c" by simp
  from Cons have "c \<in> set (rev (dropWhile isWhiteSpace s))" by simp
  with c have "dropWhile isWhiteSpace (rev (dropWhile isWhiteSpace s)) \<noteq> []"
    by auto
  then have "trim s \<noteq> []" unfolding trim_def by (simp only: rev_is_Nil_conv not_False_eq_True)
  moreover from ne have "\<not> list_all isWhiteSpace s"
    by (simp add: list_all_iff)
  ultimately show ?thesis by simp
qed

lemma toLowerCase_Nil [simp]: "toLowerCase [] = []"
  by (simp add: toLowerCase_def)

lemma toLowerCase_Nil_iff [simp]: "toLowerCase f = [] \<longleftrightarrow> f = []"
  by (simp add: toLowerCase_def)

lemma keyword_iff: "keyword s \<longleftrightarrow> list_ex (ci_contains s) keyword_set"
proof -
  have l: "toLowerCase ''light'' = ''light''" "toLowerCase ''home'' = ''home''"
    "toLowerCase ''scene'' = ''scene''" "toLowerCase ''lock'' = ''lock''"
    "toLowerCase ''thermostat'' = ''thermostat''" "toLowerCase ''door'' = ''door''"
    "toLowerCase ''room'' = ''room''"
    by code_simp+
  show ?thesis
    by (simp add: keyword_def keyword_set_def ci_contains_def includes_sub_def l)
qed

lemma ci_contains_iff:
  "ci_contains s t \<longleftrightarrow> (\<exists>ps u ss. s = ps @ u @ ss \<and> toLowerCase u = toLowerCase t)"
proof
  assume "ci_contains s t"
  then obtain ps' ss' where "toLowerCase s = ps' @ toLowerCase t @ ss'"
    by (auto simp: ci_contains_def sublist_def)
  then show "\<exists>ps u ss. s = ps @ u @ ss \<and> toLowerCase u = toLowerCase t"
    unfolding toLowerCase_def by (metis map_eq_append_conv)
next
  assume "\<exists>ps u ss. s = ps @ u @ ss \<and> toLowerCase u = toLowerCase t"
  then obtain ps u ss where "s = ps @ u @ ss" "toLowerCase u = toLowerCase t" by blast
  then have "toLowerCase s = toLowerCase ps @ toLowerCase t @ toLowerCase ss"
    by (simp add: toLowerCase_def)
  then show "ci_contains s t" by (auto simp: ci_contains_def sublist_def)
qed

lemma homeRelated_spec:
  assumes "f \<noteq> Some []"
  shows "homeRelated (map_option toLowerCase f) out = spec_lines f out"
proof (cases f)
  case None
  then show ?thesis
    by (simp add: homeRelated_def spec_lines_def Let_def trim_Nil_iff keyword_iff)
next
  case (Some t)
  with assms have "t \<noteq> []" by simp
  with Some show ?thesis
    by (simp add: homeRelated_def spec_lines_def Let_def trim_Nil_iff ci_contains_def
        includes_sub_def)
qed

lemma homeRelated_empty_filter: "homeRelated (Some []) out = homeRelated None out"
  by (simp add: homeRelated_def)

lemma list_shortcuts_eq:
  assumes "env ''shortcuts list'' = Returns out"
  shows "home_list_shortcuts env args =
     (Inr (reply
        (if homeRelated (map_option toLowerCase (filter_arg args)) out = []
         then (if truthy (map_option toLowerCase (filter_arg args))
               then ''No shortcuts found matching: '' @ str (map_option toLowerCase (filter_arg args))
               else ''No Home-related shortcuts found. Create Shortcuts in the Shortcuts app to control your Home devices.'')
         else ''Available Shortcuts:'' @ [nl]
                @ join_lines (homeRelated (map_option toLowerCase (filter_arg args)) out))),
      [''shortcuts list''])"
  using assms by (simp add: home_list_shortcuts_def execSync_def Let_def)

lemma spec_lines_example:
  "spec_lines None ''Lights On\<newline>Lights Off\<newline>Lock Doors\<newline>Unrelated\<newline>Bedroom Scene''
     = [''Lights On'', ''Lights Off'', ''Lock Doors'', ''Bedroom Scene'']"
  "spec_lines (Some ''lights'')
       ''Lights On\<newline>Lights Off\<newline>Lock Doors\<newline>Unrelated\<newline>Bedroom Scene''
     = [''Lights On'', ''Lights Off'']"
  "toLowerCase ''lights'' = ''lights''"
  by code_simp+

lemma snd_outer_catch: "snd (outer_catch d) = snd d"
  by (cases d; cases "fst d") auto

lemma hard_when_failed:
  "\<forall>c \<in> set (snd (home_open env)). \<exists>e. env c = Throws e \<Longrightarrow> \<exists>e. fst (home_open env) = Inl e"
  "\<forall>c \<in> set (snd (home_get_status env)). \<exists>e. env c = Throws e \<Longrightarrow>
     \<exists>e. fst (home_get_status env) = Inl e"
  "\<forall>c \<in> set (snd (home_control_device env args)). \<exists>e. env c = Throws e \<Longrightarrow>
     \<exists>t. fst (home_control_device env args) = Inr (failure t)"
  "\<forall>c \<in> set (snd (home_list_shortcuts env args)). \<exists>e. env c = Throws e \<Longrightarrow>
     \<exists>t. fst (home_list_shortcuts env args) = Inr (failure t)"
proof -
  let ?script = "''tell application \"Home\" to activate''"
  show "\<forall>c \<in> set (snd (home_open env)). \<exists>e. env c = Throws e \<Longrightarrow> \<exists>e. fst (home_open env) = Inl e"
    by (cases "env (''osascript -e '' @ quote ?script)")
      (simp_all add: home_open_def runAppleScript_Returns runAppleScript_Throws)
  show "\<forall>c \<in> set (snd (home_get_status env)). \<exists>e. env c = Throws e \<Longrightarrow>
      \<exists>e. fst (home_get_status env) = Inl e"
    by (cases "env (''osascript -e '' @ quote ?script)")
      (simp_all add: home_get_status_def runAppleScript_Returns runAppleScript_Throws)
  show "\<forall>c \<in> set (snd (home_control_device env args)). \<exists>e. env c = Throws e \<Longrightarrow>
      \<exists>t. fst (home_control_device env args) = Inr (failure t)"
  proof (cases "shortcutName args")
    case None
    then have "fst (home_control_device env args) =
        Inr (failure (''Error running shortcut \"undefined\": ''
           @ message (Error (''Shortcut error: '' @ replaceOfUndefined))))"
      by (simp add: home_control_device_def runShortcut_None)
    then show ?thesis by blast
  next
    case (Some n)
    assume a: "\<forall>c \<in> set (snd (home_control_device env args)). \<exists>e. env c = Throws e"
    let ?c = "''shortcuts run '' @ quote n
      @ (if truthy (action args) then '' -i '' @ quote (str (action args)) else [])"
    show ?thesis
    proof (cases "env ?c")
      case (Returns out)
      with Some have "snd (home_control_device env args) = [?c]"
        by (simp add: home_control_device_def runShortcut_Returns)
      with a Returns show ?thesis by simp
    next
      case (Throws err)
      with Some have "fst (home_control_device env args) =
          Inr (failure (''Error running shortcut \"'' @ n @ ''\": ''
             @ message (Error (''Shortcut error: '' @ diagnostic err))))"
        by (simp add: home_control_device_def runShortcut_Throws)
      then show ?thesis by blast
    qed
  qed
  show "\<forall>c \<in> set (snd (home_list_shortcuts env args)). \<exists>e. env c = Throws e \<Longrightarrow>
      \<exists>t. fst (home_list_shortcuts env args) = Inr (failure t)"
  proof (cases "env ''shortcuts list''")
    case (Returns out)
    assume a: "\<forall>c \<in> set (snd (home_list_shortcuts env args)). \<exists>e. env c = Throws e"
    from Returns have "snd (home_list_shortcuts env args) = [''shortcuts list'']"
      by (simp add: list_shortcuts_eq)
    with a Returns show ?thesis by simp
  next
    case (Throws err)
    then have "fst (home_list_shortcuts env args) =
        Inr (failure ''Error listing shortcuts. Make sure Shortcuts app is available.'')"
      by (simp add: home_list_shortcuts_def execSync_def)
    then show ?thesis by blast
  qed
qed

lemma digitValue_digit: "n < 10 \<Longrightarrow> digitValue (''0123456789'' ! n) = Some n"
proof -
  assume "n < 10"
  then consider "n = 0" | "n = 1" | "n = 2" | "n = 3" | "n = 4" | "n = 5" | "n = 6" | "n = 7"
    | "n = 8" | "n = 9"
    by atomize_elim arith
  then show ?thesis
    by cases (simp_all add: digitValue_def)
qed

lemma decimalNat_append:
  "decimalNat acc (xs @ ys) =
     (case decimalNat acc xs of None \<Rightarrow> None | Some a \<Rightarrow> decimalNat a ys)"
  by (induction xs arbitrary: acc) (simp_all split: option.split)

lemma decimalNat_digits: "decimalNat 0 (digits n) = Some n"
proof (induction n rule: digits.induct)
  case (1 n)
  show ?case
  proof (cases "n < 10")
    case True
    then show ?thesis
      by (subst digits.simps) (simp add: digitValue_digit)
  next
    case False
    then have "decimalNat 0 (digits (n div 10)) = Some (n div 10)"
      by (rule "1.IH")
    with False show ?thesis
      by (subst digits.simps)
        (simp add: decimalNat_append digitValue_digit)
  qed
qed

lemma digits_not_Nil: "digits n \<noteq> []"
  by (subst digits.simps) (simp)

lemma digit_cases:
  assumes "n < 10"
  obtains "n = 0" | "n = 1" | "n = 2" | "n = 3" | "n = 4" | "n = 5" | "n = 6" | "n = 7"
    | "n = 8" | "n = (9::nat)"
  using assms by atomize_elim arith

lemma hd_digits:
  "hd (digits n) \<noteq> CHR ''-'' \<and> (0 < n \<longrightarrow> hd (digits n) \<noteq> CHR ''0'')"
proof (induction n rule: digits.induct)
  case (1 n)
  show ?case
  proof (cases "n < 10")
    case True
    then show ?thesis
      by (cases rule: digit_cases) (simp_all add: digits.simps)
  next
    case False
    then have "0 < n div 10" by simp
    with False "1.IH" digits_not_Nil [of "n div 10"] show ?thesis
      by (subst digits.simps, subst digits.simps) simp
  qed
qed

lemma digits_0: "digits 0 = ''0''"
  by (simp add: digits.simps)

lemma decimalValue_numberToString:
  "decimalValue (numberToString t) = Some (integer_value t)"
proof -
  consider "integer_value t < 0" | "integer_value t = 0" | "0 < integer_value t"
    by linarith
  then show ?thesis
  proof cases
    case 1
    let ?m = "nat (- integer_value t)"
    from 1 have m: "0 < ?m" by simp
    obtain d ds where d: "digits ?m = d # ds"
      using digits_not_Nil [of ?m] by (cases "digits ?m") auto
    with hd_digits [of ?m] m have "d \<noteq> CHR ''0''" by simp
    moreover have "decimalNat 0 (d # ds) = Some ?m"
      using decimalNat_digits [of ?m] d by simp
    ultimately show ?thesis
      using 1 d by (simp add: numberToString_def decimalValue_def del: decimalNat.simps)
  next
    case 2
    then show ?thesis
      by (simp add: numberToString_def decimalValue_def digits_0 digitValue_def)
  next
    case 3
    let ?n = "nat (integer_value t)"
    from 3 have n: "0 < ?n" by simp
    obtain c cs where d: "digits ?n = c # cs"
      using digits_not_Nil [of ?n] by (cases "digits ?n") auto
    with hd_digits [of ?n] n have "c \<noteq> CHR ''-''" "c \<noteq> CHR ''0''" by simp_all
    moreover have "decimalNat 0 (c # cs) = Some ?n"
      using decimalNat_digits [of ?n] d by simp
    ultimately show ?thesis
      using 3 d by (simp add: numberToString_def decimalValue_def del: decimalNat.simps)
  qed
qed

lemma message_Error [simp]: "message (Error m) = m"
  by (simp add: Error_def)

lemma soft_failed:
  "\<exists>e. r = Throws e \<Longrightarrow> (case r of Returns out \<Rightarrow> A out | Throws e \<Rightarrow> B) = B"
  by auto

lemma run_scene_eq:
  "home_run_scene env args =
     (case scene args of
        None \<Rightarrow>
          (Inr (reply (''To run scene \"undefined\", please create a Shortcut with that name that activates the HomeKit scene.'')),
           [])
      | Some s \<Rightarrow>
          (case env (''shortcuts run '' @ quote s) of
             Returns out \<Rightarrow> Inr (reply (''Activated scene: '' @ s))
           | Throws e \<Rightarrow>
               Inr (reply (''To run scene \"'' @ s
                 @ ''\", please create a Shortcut with that name that activates the HomeKit scene.'')),
           [''shortcuts run '' @ quote s]))"
proof (cases "scene args")
  case None
  then show ?thesis by (simp add: home_run_scene_def runShortcut_None)
next
  case (Some s)
  then show ?thesis
    by (cases "env (''shortcuts run '' @ quote s)")
      (simp_all add: home_run_scene_def runShortcut_def execSync_def)
qed

lemma lights_off_eq:
  "home_lights_off env args =
     (let shortcutName = (if truthy (room args) then str (room args) @ '' Lights Off''
                          else ''Lights Off'');
          command = ''shortcuts run '' @ quote shortcutName
      in (case env command of
            Returns out \<Rightarrow>
              Inr (reply (''Lights off''
                @ (if truthy (room args) then '' in '' @ str (room args) else [])))
          | Throws e \<Rightarrow>
              Inr (reply (''To turn off lights''
                @ (if truthy (room args) then '' in '' @ str (room args) else [])
                @ '', create a Shortcut named \"'' @ shortcutName
                @ ''\" that controls your HomeKit lights.'' @ [nl, nl]
                @ ''Alternatively, you can say to Siri: \"''
                @ (if truthy (room args) then ''turn off '' @ str (room args) @ '' lights''
                   else ''turn off the lights'')
                @ ''\"'')),
          [command]))"
  unfolding home_lights_off_def runShortcut_def execSync_def Let_def
  by (cases "env (''shortcuts run ''
        @ quote (if truthy (room args) then str (room args) @ '' Lights Off'' else ''Lights Off''))")
    simp_all

lemma lock_doors_eq:
  "home_lock_doors env =
     (case env (''shortcuts run '' @ quote ''Lock Doors'') of
        Returns out \<Rightarrow> Inr (reply ''Doors locked'')
      | Throws e \<Rightarrow>
          Inr (reply (''To lock doors, create a Shortcut named \"Lock Doors\" that controls your HomeKit locks.''
            @ [nl, nl] @ ''Alternatively, you can say to Siri: \"Lock all doors\"'')),
      [''shortcuts run '' @ quote ''Lock Doors''])"
  by (cases "env (''shortcuts run '' @ quote ''Lock Doors'')")
    (simp_all add: home_lock_doors_def runShortcut_def execSync_def)

lemma unlock_doors_eq:
  "home_unlock_doors env =
     (case env (''shortcuts run '' @ quote ''Unlock Doors'') of
        Returns out \<Rightarrow> Inr (reply ''Doors unlocked'')
      | Throws e \<Rightarrow>
          Inr (reply (''To unlock doors, create a Shortcut named \"Unlock Doors\" that controls your HomeKit locks.''
            @ [nl, nl] @ ''Alternatively, you can say to Siri: \"Unlock all doors\"'')),
      [''shortcuts run '' @ quote ''Unlock Doors''])"
  by (cases "env (''shortcuts run '' @ quote ''Unlock Doors'')")
    (simp_all add: home_unlock_doors_def runShortcut_def execSync_def)

lemma open_eq:
  "home_open env =
     (case env (''osascript -e '' @ quote ''tell application \"Home\" to activate'') of
        Returns out \<Rightarrow> Inr (reply ''Home app opened'')
      | Throws e \<Rightarrow> Inl (Error (''AppleScript error: '' @ diagnostic e)),
      [''osascript -e '' @ quote ''tell application \"Home\" to activate''])"
  by (cases "env (''osascript -e '' @ quote ''tell application \"Home\" to activate'')")
    (simp_all add: home_open_def runAppleScript_def execSync_def)

lemma get_status_eq:
  "home_get_status env =
     (case env (''osascript -e '' @ quote ''tell application \"Home\" to activate'') of
        Returns out \<Rightarrow>
          Inr (reply ''Home app opened. Note: HomeKit device status is not accessible via AppleScript. View status in the Home app.'')
      | Throws e \<Rightarrow> Inl (Error (''AppleScript error: '' @ diagnostic e)),
      [''osascript -e '' @ quote ''tell application \"Home\" to activate''])"
  by (cases "env (''osascript -e '' @ quote ''tell application \"Home\" to activate'')")
    (simp_all add: home_get_status_def runAppleScript_def execSync_def)

lemma control_device_ran:
  "snd (home_control_device env args) =
     (case shortcutName args of
        None \<Rightarrow> []
      | Some n \<Rightarrow>
          [''shortcuts run '' @ quote n
             @ (if truthy (action args) then '' -i '' @ quote (str (action args)) else [])])"
proof (cases "shortcutName args")
  case None
  then show ?thesis by (simp add: home_control_device_def runShortcut_None)
next
  case (Some n)
  then show ?thesis
    by (cases "env (''shortcuts run '' @ quote n
          @ (if truthy (action args) then '' -i '' @ quote (str (action args)) else []))")
      (simp_all add: home_control_device_def runShortcut_Returns runShortcut_Throws)
qed

lemma list_shortcuts_Throws:
  "env ''shortcuts list'' = Throws e \<Longrightarrow>
   home_list_shortcuts env args =
     (Inr (failure ''Error listing shortcuts. Make sure Shortcuts app is available.''),
      [''shortcuts list''])"
  by (simp add: home_list_shortcuts_def execSync_def)

lemma list_shortcuts_ran: "snd (home_list_shortcuts env args) = [''shortcuts list'']"
  by (cases "env ''shortcuts list''") (simp_all add: list_shortcuts_eq list_shortcuts_Throws)

text \<open>What each quick action answers when the command it ran has failed.\<close>

lemma run_scene_failed:
  assumes "\<forall>c \<in> set (snd (home_run_scene env args)). \<exists>e. env c = Throws e"
  shows "home_run_scene env args =
     (Inr (reply (''To run scene \"'' @ str (scene args)
        @ ''\", please create a Shortcut with that name that activates the HomeKit scene.'')),
      case scene args of None \<Rightarrow> [] | Some s \<Rightarrow> [''shortcuts run '' @ quote s])"
proof (cases "scene args")
  case None
  then show ?thesis by (simp add: run_scene_eq)
next
  case (Some s)
  with assms have "\<exists>e. env (''shortcuts run '' @ quote s) = Throws e"
    by (simp add: run_scene_eq)
  with Some show ?thesis
    by (simp add: run_scene_eq soft_failed)
qed

lemma lights_on_failed:
  assumes "\<forall>c \<in> set (snd (home_lights_on env args)). \<exists>e. env c = Throws e"
  shows "home_lights_on env args =
     (Inr (reply (''To turn on lights''
        @ (if truthy (room args) then '' in '' @ str (room args) else [])
        @ '', create a Shortcut named \"''
        @ (if truthy (room args) then str (room args) @ '' Lights On'' else ''Lights On'')
        @ ''\" that controls your HomeKit lights.'' @ [nl, nl]
        @ ''Alternatively, you can say to Siri: \"''
        @ (if truthy (room args) then ''turn on '' @ str (room args) @ '' lights''
           else ''turn on the lights'')
        @ ''\"'')),
      [''shortcuts run ''
         @ quote (if truthy (room args) then str (room args) @ '' Lights On'' else ''Lights On'')])"
proof -
  let ?c = "''shortcuts run ''
    @ quote (if truthy (room args) then str (room args) @ '' Lights On'' else ''Lights On'')"
  from assms have "\<exists>e. env ?c = Throws e"
    by (simp add: lights_on_eq Let_def)
  then show ?thesis
    by (simp only: lights_on_eq Let_def soft_failed)
qed

lemma lights_off_failed:
  assumes "\<forall>c \<in> set (snd (home_lights_off env args)). \<exists>e. env c = Throws e"
  shows "home_lights_off env args =
     (Inr (reply (''To turn off lights''
        @ (if truthy (room args) then '' in '' @ str (room args) else [])
        @ '', create a Shortcut named \"''
        @ (if truthy (room args) then str (room args) @ '' Lights Off'' else ''Lights Off'')
        @ ''\" that controls your HomeKit lights.'' @ [nl, nl]
        @ ''Alternatively, you can say to Siri: \"''
        @ (if truthy (room args) then ''turn off '' @ str (room args) @ '' lights''
           else ''turn off the lights'')
        @ ''\"'')),
      [''shortcuts run ''
         @ quote (if truthy (room args) then str (room args) @ '' Lights Off'' else ''Lights Off'')])"
proof -
  let ?c = "''shortcuts run ''
    @ quote (if truthy (room args) then str (room args) @ '' Lights Off'' else ''Lights Off'')"
  from assms have "\<exists>e. env ?c = Throws e"
    by (simp add: lights_off_eq Let_def)
  then show ?thesis
    by (simp only: lights_off_eq Let_def soft_failed)
qed

lemma set_thermostat_failed:
  assumes "\<forall>c \<in> set (snd (home_set_thermostat env args)). \<exists>e. env c = Throws e"
  shows "home_set_thermostat env args =
     (Inr (reply (''To set thermostat to '' @ num (temperature args) @ [degree]
        @ (if (case unit args of None \<Rightarrow> ''fahrenheit'' | Some u \<Rightarrow> u) = ''celsius''
           then ''C'' else ''F'')
        @ '', create a Shortcut named \"Set Thermostat\" that controls your HomeKit thermostat.''
        @ [nl, nl]
        @ ''Alternatively, you can say to Siri: \"Set the thermostat to ''
        @ (num (temperature args) @ '' degrees ''
            @ (case unit args of None \<Rightarrow> ''fahrenheit'' | Some u \<Rightarrow> u))
        @ ''\"'')),
      [''shortcuts run '' @ quote ''Set Thermostat'' @ '' -i ''
         @ quote (num (temperature args) @ '' degrees ''
             @ (case unit args of None \<Rightarrow> ''fahrenheit'' | Some u \<Rightarrow> u))])"
proof -
  let ?c = "''shortcuts run '' @ quote ''Set Thermostat'' @ '' -i ''
    @ quote (num (temperature args) @ '' degrees ''
        @ (case unit args of None \<Rightarrow> ''fahrenheit'' | Some u \<Rightarrow> u))"
  from assms have "\<exists>e. env ?c = Throws e"
    by (simp add: set_thermostat_eq Let_def)
  then show ?thesis
    by (simp only: set_thermostat_eq Let_def soft_failed)
qed

lemma lock_doors_failed:
  assumes "\<forall>c \<in> set (snd (home_lock_doors env)). \<exists>e. env c = Throws e"
  shows "home_lock_doors env =
     (Inr (reply (''To lock doors, create a Shortcut named \"Lock Doors\" that controls your HomeKit locks.''
        @ [nl, nl] @ ''Alternatively, you can say to Siri: \"Lock all doors\"'')),
      [''shortcuts run '' @ quote ''Lock Doors''])"
proof -
  from assms have "\<exists>e. env (''shortcuts run '' @ quote ''Lock Doors'') = Throws e"
    by (simp add: lock_doors_eq)
  then show ?thesis
    by (simp only: lock_doors_eq soft_failed)
qed

lemma unlock_doors_failed:
  assumes "\<forall>c \<in> set (snd (home_unlock_doors env)). \<exists>e. env c = Throws e"
  shows "home_unlock_doors env =
     (Inr (reply (''To unlock doors, create a Shortcut named \"Unlock Doors\" that controls your HomeKit locks.''
        @ [nl, nl] @ ''Alternatively, you can say to Siri: \"Unlock all doors\"'')),
      [''shortcuts run '' @ quote ''Unlock Doors''])"
proof -
  from assms have "\<exists>e. env (''shortcuts run '' @ quote ''Unlock Doors'') = Throws e"
    by (simp add: unlock_doors_eq)
  then show ?thesis
    by (simp only: unlock_doors_eq soft_failed)
qed

lemma open_failed:
  assumes "\<forall>c \<in> set (snd (home_open env)). \<exists>e. env c = Throws e"
  shows "\<exists>e. env (''osascript -e '' @ quote ''tell application \"Home\" to activate'') = Throws e
     \<and> outer_catch (home_open env) =
         (failure (''Error: AppleScript error: '' @ diagnostic e),
          [''osascript -e '' @ quote ''tell application \"Home\" to activate''])"
proof -
  from assms obtain e
    where e: "env (''osascript -e '' @ quote ''tell application \"Home\" to activate'') = Throws e"
    by (auto simp: open_eq)
  have "home_open env =
      (Inl (Error (''AppleScript error: '' @ diagnostic e)),
       [''osascript -e '' @ quote ''tell application \"Home\" to activate''])"
    using e by (simp add: open_eq)
  then have "outer_catch (home_open env) =
         (failure (''Error: AppleScript error: '' @ diagnostic e),
          [''osascript -e '' @ quote ''tell application \"Home\" to activate''])"
    by simp
  with e show ?thesis by (intro exI conjI)
qed

lemma get_status_failed:
  assumes "\<forall>c \<in> set (snd (home_get_status env)). \<exists>e. env c = Throws e"
  shows "\<exists>e. env (''osascript -e '' @ quote ''tell application \"Home\" to activate'') = Throws e
     \<and> outer_catch (home_get_status env) =
         (failure (''Error: AppleScript error: '' @ diagnostic e),
          [''osascript -e '' @ quote ''tell application \"Home\" to activate''])"
proof -
  from assms obtain e
    where e: "env (''osascript -e '' @ quote ''tell application \"Home\" to activate'') = Throws e"
    by (auto simp: get_status_eq)
  have "home_get_status env =
      (Inl (Error (''AppleScript error: '' @ diagnostic e)),
       [''osascript -e '' @ quote ''tell application \"Home\" to activate''])"
    using e by (simp add: get_status_eq)
  then have "outer_catch (home_get_status env) =
         (failure (''Error: AppleScript error: '' @ diagnostic e),
          [''osascript -e '' @ quote ''tell application \"Home\" to activate''])"
    by simp
  with e show ?thesis by (intro exI conjI)
qed

lemma list_shortcuts_failed:
  assumes "\<forall>c \<in> set (snd (home_list_shortcuts env args)). \<exists>e. env c = Throws e"
  shows "home_list_shortcuts env args =
     (Inr (failure ''Error listing shortcuts. Make sure Shortcuts app is available.''),
      [''shortcuts list''])"
proof -
  from assms obtain e where "env ''shortcuts list'' = Throws e"
    by (auto simp: list_shortcuts_ran)
  then show ?thesis by (rule list_shortcuts_Throws)
qed

lemma failure_flags:
  assumes failing: "\<forall>command \<in> set (invoked env request). \<exists>e. env command = Throws e"
    and op: "name request \<in> set operations"
  shows "(isError (respond env request) = None \<longleftrightarrow>
            name request \<in> {''home_run_scene'', ''home_lights_on'', ''home_lights_off'',
              ''home_set_thermostat'', ''home_lock_doors'', ''home_unlock_doors''})
       \<and> (name request \<in> {''home_open'', ''home_control_device'', ''home_list_shortcuts'',
              ''home_get_status''} \<longrightarrow> isError (respond env request) = Some True)"
proof -
  let ?P = "\<lambda>d. (\<forall>command \<in> set (snd d). \<exists>e. env command = Throws e) \<longrightarrow>
       (isError (fst (outer_catch d)) = None \<longleftrightarrow>
            name request \<in> {''home_run_scene'', ''home_lights_on'', ''home_lights_off'',
              ''home_set_thermostat'', ''home_lock_doors'', ''home_unlock_doors''})
       \<and> (name request \<in> {''home_open'', ''home_control_device'', ''home_list_shortcuts'',
              ''home_get_status''} \<longrightarrow> isError (fst (outer_catch d)) = Some True)"
  have "?P (dispatch env request)"
  proof (rule dispatch_rule)
    assume n: "name request = ''home_open''"
    show "?P (home_open env)"
    proof
      assume "\<forall>command \<in> set (snd (home_open env)). \<exists>e. env command = Throws e"
      from hard_when_failed(1) [OF this] obtain e where "fst (home_open env) = Inl e" ..
      with n show "(isError (fst (outer_catch (home_open env))) = None \<longleftrightarrow>
            name request \<in> {''home_run_scene'', ''home_lights_on'', ''home_lights_off'',
              ''home_set_thermostat'', ''home_lock_doors'', ''home_unlock_doors''})
       \<and> (name request \<in> {''home_open'', ''home_control_device'', ''home_list_shortcuts'',
              ''home_get_status''} \<longrightarrow> isError (fst (outer_catch (home_open env))) = Some True)"
        by (cases "home_open env") (simp add: failure_def)
    qed
  next
    assume n: "name request = ''home_get_status''"
    show "?P (home_get_status env)"
    proof
      assume "\<forall>command \<in> set (snd (home_get_status env)). \<exists>e. env command = Throws e"
      from hard_when_failed(2) [OF this] obtain e where "fst (home_get_status env) = Inl e" ..
      with n show "(isError (fst (outer_catch (home_get_status env))) = None \<longleftrightarrow>
            name request \<in> {''home_run_scene'', ''home_lights_on'', ''home_lights_off'',
              ''home_set_thermostat'', ''home_lock_doors'', ''home_unlock_doors''})
       \<and> (name request \<in> {''home_open'', ''home_control_device'', ''home_list_shortcuts'',
              ''home_get_status''} \<longrightarrow> isError (fst (outer_catch (home_get_status env))) = Some True)"
        by (cases "home_get_status env") (simp add: failure_def)
    qed
  next
    assume n: "name request = ''home_control_device''"
    show "?P (home_control_device env (arguments request))"
    proof
      assume "\<forall>command \<in> set (snd (home_control_device env (arguments request))).
          \<exists>e. env command = Throws e"
      from hard_when_failed(3) [OF this] obtain t
        where "fst (home_control_device env (arguments request)) = Inr (failure t)" ..
      with n show "(isError (fst (outer_catch (home_control_device env (arguments request)))) = None \<longleftrightarrow>
            name request \<in> {''home_run_scene'', ''home_lights_on'', ''home_lights_off'',
              ''home_set_thermostat'', ''home_lock_doors'', ''home_unlock_doors''})
       \<and> (name request \<in> {''home_open'', ''home_control_device'', ''home_list_shortcuts'',
              ''home_get_status''} \<longrightarrow>
            isError (fst (outer_catch (home_control_device env (arguments request)))) = Some True)"
        by (cases "home_control_device env (arguments request)") (simp add: failure_def)
    qed
  next
    assume n: "name request = ''home_list_shortcuts''"
    show "?P (home_list_shortcuts env (arguments request))"
    proof
      assume "\<forall>command \<in> set (snd (home_list_shortcuts env (arguments request))).
          \<exists>e. env command = Throws e"
      from hard_when_failed(4) [OF this] obtain t
        where "fst (home_list_shortcuts env (arguments request)) = Inr (failure t)" ..
      with n show "(isError (fst (outer_catch (home_list_shortcuts env (arguments request)))) = None \<longleftrightarrow>
            name request \<in> {''home_run_scene'', ''home_lights_on'', ''home_lights_off'',
              ''home_set_thermostat'', ''home_lock_doors'', ''home_unlock_doors''})
       \<and> (name request \<in> {''home_open'', ''home_control_device'', ''home_list_shortcuts'',
              ''home_get_status''} \<longrightarrow>
            isError (fst (outer_catch (home_list_shortcuts env (arguments request)))) = Some True)"
        by (cases "home_list_shortcuts env (arguments request)") (simp add: failure_def)
    qed
  next
    assume n: "name request = ''home_run_scene''"
    from soft_shapes(1) obtain t cmds
      where "home_run_scene env (arguments request) = (Inr (reply t), cmds)" by blast
    with n show "?P (home_run_scene env (arguments request))" by (simp add: reply_def)
  next
    assume n: "name request = ''home_lights_on''"
    from soft_shapes(2) obtain t cmds
      where "home_lights_on env (arguments request) = (Inr (reply t), cmds)" by blast
    with n show "?P (home_lights_on env (arguments request))" by (simp add: reply_def)
  next
    assume n: "name request = ''home_lights_off''"
    from soft_shapes(3) obtain t cmds
      where "home_lights_off env (arguments request) = (Inr (reply t), cmds)" by blast
    with n show "?P (home_lights_off env (arguments request))" by (simp add: reply_def)
  next
    assume n: "name request = ''home_set_thermostat''"
    from soft_shapes(4) obtain t cmds
      where "home_set_thermostat env (arguments request) = (Inr (reply t), cmds)" by blast
    with n show "?P (home_set_thermostat env (arguments request))" by (simp add: reply_def)
  next
    assume n: "name request = ''home_lock_doors''"
    from soft_shapes(5) obtain t cmds
      where "home_lock_doors env = (Inr (reply t), cmds)" by blast
    with n show "?P (home_lock_doors env)" by (simp add: reply_def)
  next
    assume n: "name request = ''home_unlock_doors''"
    from soft_shapes(6) obtain t cmds
      where "home_unlock_doors env = (Inr (reply t), cmds)" by blast
    with n show "?P (home_unlock_doors env)" by (simp add: reply_def)
  next
    assume "name request \<notin> set operations"
    with op show "?P (Inr (failure (''Unknown tool: '' @ name request)), [])" by simp
  qed
  with failing show ?thesis
    by (simp add: respond_def invoked_def handleToolCall_def snd_outer_catch)
qed

section \<open>Quoting (C1)\<close>

text \<open>
  C1, as the code has it. The text put in place of a single quote has five characters
  (quote, double quote, quote, double quote, quote), and for every string \<open>s\<close> the
  fragment \<open>quote s\<close> is read back by the shell's quoting rules as exactly \<open>s\<close>:
  also for the empty string and for strings of quotes, double quotes, backquotes,
  \<^verbatim>\<open>$\<close>, \<^verbatim>\<open>;\<close>, \<^verbatim>\<open>|\<close>, newlines and control characters.
  \<^const>\<open>quote\<close> is a total function of its argument alone.
\<close>

theorem quote_roundtrip:
  "escapeQuotes [sq] = [sq, dq, sq, dq, sq]
   \<and> length (escapeQuotes [sq]) = 5
   \<and> sh_literal Bare (quote s) = Some s"
  by (simp add: sh_literal_quote)

theorem quote_roundtrip_witness:
  "sh_literal Bare (quote []) = Some []
   \<and> sh_literal Bare (quote [sq, sq, sq]) = Some [sq, sq, sq]
   \<and> sh_literal Bare (quote (''it'' @ [sq] @ ''s; $(whoami) | '' @ [CHR 0x60, dq, nl, CHR 0x01]))
       = Some (''it'' @ [sq] @ ''s; $(whoami) | '' @ [CHR 0x60, dq, nl, CHR 0x01])"
  using quote_roundtrip [of "[]"] quote_roundtrip [of "[sq, sq, sq]"]
    quote_roundtrip [of "''it'' @ [sq] @ ''s; $(whoami) | '' @ [CHR 0x60, dq, nl, CHR 0x01]"]
  by simp

text \<open>
  C1, as it is written: the replacement for a single quote is not a four-character
  sequence. Quoting the one-character string \<^verbatim>\<open>'\<close> gives seven characters, not six.
\<close>

theorem quote_four_chars_counterexample:
  "length (escapeQuotes [sq]) \<noteq> 4 \<and> length (quote [sq]) = 7"
  by (simp add: quote_def)

section \<open>Soft fallback and hard error (C2)\<close>

text \<open>
  C2. When every command that the handler runs for one of the ten operations fails
  (\<^verbatim>\<open>execSync\<close> throws), the response carries no \<open>isError\<close> exactly for
  \<^verbatim>\<open>home_run_scene\<close>, \<^verbatim>\<open>home_lights_on\<close>, \<^verbatim>\<open>home_lights_off\<close>, \<^verbatim>\<open>home_set_thermostat\<close>,
  \<^verbatim>\<open>home_lock_doors\<close> and \<^verbatim>\<open>home_unlock_doors\<close>; for \<^verbatim>\<open>home_open\<close>,
  \<^verbatim>\<open>home_control_device\<close>, \<^verbatim>\<open>home_list_shortcuts\<close> and \<^verbatim>\<open>home_get_status\<close> it has
  \<open>isError: true\<close>. For each of the six the response is the guidance text of that
  operation, naming the shortcut to create, and the command run is the one that failed;
  for the other four the commands run, and the error texts of \<^verbatim>\<open>home_open\<close>,
  \<^verbatim>\<open>home_get_status\<close> and \<^verbatim>\<open>home_list_shortcuts\<close>, are given as well. This holds for every
  argument object and every thrown error.
\<close>

theorem failure_partition:
  assumes failing: "\<forall>command \<in> set (invoked env request). \<exists>e. env command = Throws e"
    and op: "name request \<in> set operations"
  shows "(isError (respond env request) = None \<longleftrightarrow>
            name request \<in> {''home_run_scene'', ''home_lights_on'', ''home_lights_off'',
              ''home_set_thermostat'', ''home_lock_doors'', ''home_unlock_doors''})
       \<and> (name request \<in> {''home_open'', ''home_control_device'', ''home_list_shortcuts'',
              ''home_get_status''} \<longrightarrow> isError (respond env request) = Some True)
       \<and> (name request = ''home_run_scene'' \<longrightarrow>
          handleToolCall env request =
            (\<lparr>content = [\<lparr>type = ''text'',
                text = ''To run scene \"'' @ str (scene (arguments request))
                    @ ''\", please create a Shortcut with that name that activates the HomeKit scene.''\<rparr>],
              isError = None\<rparr>,
             case scene (arguments request) of
                None \<Rightarrow> []
              | Some s \<Rightarrow> [''shortcuts run '' @ quote s]))
       \<and> (name request = ''home_lights_on'' \<longrightarrow>
          handleToolCall env request =
            (\<lparr>content = [\<lparr>type = ''text'',
                text = ''To turn on lights''
                    @ (if truthy (room (arguments request))
                       then '' in '' @ str (room (arguments request)) else [])
                    @ '', create a Shortcut named \"''
                    @ (if truthy (room (arguments request))
                       then str (room (arguments request)) @ '' Lights On'' else ''Lights On'')
                    @ ''\" that controls your HomeKit lights.'' @ [nl, nl]
                    @ ''Alternatively, you can say to Siri: \"''
                    @ (if truthy (room (arguments request))
                       then ''turn on '' @ str (room (arguments request)) @ '' lights''
                       else ''turn on the lights'')
                    @ ''\"''\<rparr>],
              isError = None\<rparr>,
             [''shortcuts run ''
                @ quote (if truthy (room (arguments request))
                         then str (room (arguments request)) @ '' Lights On''
                         else ''Lights On'')]))
       \<and> (name request = ''home_lights_off'' \<longrightarrow>
          handleToolCall env request =
            (\<lparr>content = [\<lparr>type = ''text'',
                text = ''To turn off lights''
                    @ (if truthy (room (arguments request))
                       then '' in '' @ str (room (arguments request)) else [])
                    @ '', create a Shortcut named \"''
                    @ (if truthy (room (arguments request))
                       then str (room (arguments request)) @ '' Lights Off'' else ''Lights Off'')
                    @ ''\" that controls your HomeKit lights.'' @ [nl, nl]
                    @ ''Alternatively, you can say to Siri: \"''
                    @ (if truthy (room (arguments request))
                       then ''turn off '' @ str (room (arguments request)) @ '' lights''
                       else ''turn off the lights'')
                    @ ''\"''\<rparr>],
              isError = None\<rparr>,
             [''shortcuts run ''
                @ quote (if truthy (room (arguments request))
                         then str (room (arguments request)) @ '' Lights Off''
                         else ''Lights Off'')]))
       \<and> (name request = ''home_set_thermostat'' \<longrightarrow>
          handleToolCall env request =
            (\<lparr>content = [\<lparr>type = ''text'',
                text = ''To set thermostat to '' @ num (temperature (arguments request)) @ [degree]
                    @ (if (case unit (arguments request) of
                             None \<Rightarrow> ''fahrenheit'' | Some u \<Rightarrow> u) = ''celsius''
                       then ''C'' else ''F'')
                    @ '', create a Shortcut named \"Set Thermostat\" that controls your HomeKit thermostat.''
                    @ [nl, nl]
                    @ ''Alternatively, you can say to Siri: \"Set the thermostat to ''
                    @ (num (temperature (arguments request)) @ '' degrees ''
                        @ (case unit (arguments request) of
                             None \<Rightarrow> ''fahrenheit'' | Some u \<Rightarrow> u))
                    @ ''\"''\<rparr>],
              isError = None\<rparr>,
             [''shortcuts run '' @ quote ''Set Thermostat'' @ '' -i ''
                @ quote (num (temperature (arguments request)) @ '' degrees ''
                    @ (case unit (arguments request) of
                         None \<Rightarrow> ''fahrenheit'' | Some u \<Rightarrow> u))]))
       \<and> (name request = ''home_lock_doors'' \<longrightarrow>
          handleToolCall env request =
            (\<lparr>content = [\<lparr>type = ''text'',
                text = ''To lock doors, create a Shortcut named \"Lock Doors\" that controls your HomeKit locks.''
                    @ [nl, nl] @ ''Alternatively, you can say to Siri: \"Lock all doors\"''\<rparr>],
              isError = None\<rparr>,
             [''shortcuts run '' @ quote ''Lock Doors'']))
       \<and> (name request = ''home_unlock_doors'' \<longrightarrow>
          handleToolCall env request =
            (\<lparr>content = [\<lparr>type = ''text'',
                text = ''To unlock doors, create a Shortcut named \"Unlock Doors\" that controls your HomeKit locks.''
                    @ [nl, nl] @ ''Alternatively, you can say to Siri: \"Unlock all doors\"''\<rparr>],
              isError = None\<rparr>,
             [''shortcuts run '' @ quote ''Unlock Doors'']))
       \<and> (name request = ''home_open'' \<longrightarrow>
          (\<exists>e. env (''osascript -e '' @ quote ''tell application \"Home\" to activate'') = Throws e
             \<and> handleToolCall env request =
                 (\<lparr>content = [\<lparr>type = ''text'',
                     text = ''Error: AppleScript error: '' @ diagnostic e\<rparr>],
                   isError = Some True\<rparr>,
                  [''osascript -e '' @ quote ''tell application \"Home\" to activate''])))
       \<and> (name request = ''home_get_status'' \<longrightarrow>
          (\<exists>e. env (''osascript -e '' @ quote ''tell application \"Home\" to activate'') = Throws e
             \<and> handleToolCall env request =
                 (\<lparr>content = [\<lparr>type = ''text'',
                     text = ''Error: AppleScript error: '' @ diagnostic e\<rparr>],
                   isError = Some True\<rparr>,
                  [''osascript -e '' @ quote ''tell application \"Home\" to activate''])))
       \<and> (name request = ''home_list_shortcuts'' \<longrightarrow>
          handleToolCall env request =
            (\<lparr>content = [\<lparr>type = ''text'',
                text = ''Error listing shortcuts. Make sure Shortcuts app is available.''\<rparr>],
              isError = Some True\<rparr>,
             [''shortcuts list'']))
       \<and> (name request = ''home_control_device'' \<longrightarrow>
          invoked env request =
            (case shortcutName (arguments request) of
               None \<Rightarrow> []
             | Some n \<Rightarrow>
                 [''shortcuts run '' @ quote n
                    @ (if truthy (action (arguments request))
                       then '' -i '' @ quote (str (action (arguments request))) else [])]))"
proof -
  have inv: "invoked env request = snd (dispatch env request)"
    by (simp add: invoked_def handleToolCall_def snd_outer_catch)
  note f = failing [unfolded inv]
  have flags: "(isError (respond env request) = None \<longleftrightarrow>
            name request \<in> {''home_run_scene'', ''home_lights_on'', ''home_lights_off'',
              ''home_set_thermostat'', ''home_lock_doors'', ''home_unlock_doors''})
       \<and> (name request \<in> {''home_open'', ''home_control_device'', ''home_list_shortcuts'',
              ''home_get_status''} \<longrightarrow> isError (respond env request) = Some True)"
    using failing op by (rule failure_flags)
  have c_home_run_scene: "(name request = ''home_run_scene'' \<longrightarrow>
          handleToolCall env request =
            (\<lparr>content = [\<lparr>type = ''text'',
                text = ''To run scene \"'' @ str (scene (arguments request))
                    @ ''\", please create a Shortcut with that name that activates the HomeKit scene.''\<rparr>],
              isError = None\<rparr>,
             case scene (arguments request) of
                None \<Rightarrow> []
              | Some s \<Rightarrow> [''shortcuts run '' @ quote s]))"
  proof
    assume n: "name request = ''home_run_scene''"
    from f have "\<forall>c \<in> set (snd (home_run_scene env (arguments request))). \<exists>e. env c = Throws e"
      by (simp only: dispatch_cases(2) [OF n])
    then have eq: "home_run_scene env (arguments request) = (Inr (reply (''To run scene \"'' @ str (scene (arguments request))
                    @ ''\", please create a Shortcut with that name that activates the HomeKit scene.'')), case scene (arguments request) of
                None \<Rightarrow> []
              | Some s \<Rightarrow> [''shortcuts run '' @ quote s])"
      by (rule run_scene_failed)
    show "handleToolCall env request =
            (\<lparr>content = [\<lparr>type = ''text'',
                text = ''To run scene \"'' @ str (scene (arguments request))
                    @ ''\", please create a Shortcut with that name that activates the HomeKit scene.''\<rparr>],
              isError = None\<rparr>,
             case scene (arguments request) of
                None \<Rightarrow> []
              | Some s \<Rightarrow> [''shortcuts run '' @ quote s])"
      by (simp only: handleToolCall_def dispatch_cases(2) [OF n] eq outer_catch_simps reply_def)
  qed
  have c_home_lights_on: "(name request = ''home_lights_on'' \<longrightarrow>
          handleToolCall env request =
            (\<lparr>content = [\<lparr>type = ''text'',
                text = ''To turn on lights''
                    @ (if truthy (room (arguments request))
                       then '' in '' @ str (room (arguments request)) else [])
                    @ '', create a Shortcut named \"''
                    @ (if truthy (room (arguments request))
                       then str (room (arguments request)) @ '' Lights On'' else ''Lights On'')
                    @ ''\" that controls your HomeKit lights.'' @ [nl, nl]
                    @ ''Alternatively, you can say to Siri: \"''
                    @ (if truthy (room (arguments request))
                       then ''turn on '' @ str (room (arguments request)) @ '' lights''
                       else ''turn on the lights'')
                    @ ''\"''\<rparr>],
              isError = None\<rparr>,
             [''shortcuts run ''
                @ quote (if truthy (room (arguments request))
                         then str (room (arguments request)) @ '' Lights On''
                         else ''Lights On'')]))"
  proof
    assume n: "name request = ''home_lights_on''"
    from f have "\<forall>c \<in> set (snd (home_lights_on env (arguments request))). \<exists>e. env c = Throws e"
      by (simp only: dispatch_cases(5) [OF n])
    then have eq: "home_lights_on env (arguments request) = (Inr (reply (''To turn on lights''
                    @ (if truthy (room (arguments request))
                       then '' in '' @ str (room (arguments request)) else [])
                    @ '', create a Shortcut named \"''
                    @ (if truthy (room (arguments request))
                       then str (room (arguments request)) @ '' Lights On'' else ''Lights On'')
                    @ ''\" that controls your HomeKit lights.'' @ [nl, nl]
                    @ ''Alternatively, you can say to Siri: \"''
                    @ (if truthy (room (arguments request))
                       then ''turn on '' @ str (room (arguments request)) @ '' lights''
                       else ''turn on the lights'')
                    @ ''\"'')), [''shortcuts run ''
                @ quote (if truthy (room (arguments request))
                         then str (room (arguments request)) @ '' Lights On''
                         else ''Lights On'')])"
      by (rule lights_on_failed)
    show "handleToolCall env request =
            (\<lparr>content = [\<lparr>type = ''text'',
                text = ''To turn on lights''
                    @ (if truthy (room (arguments request))
                       then '' in '' @ str (room (arguments request)) else [])
                    @ '', create a Shortcut named \"''
                    @ (if truthy (room (arguments request))
                       then str (room (arguments request)) @ '' Lights On'' else ''Lights On'')
                    @ ''\" that controls your HomeKit lights.'' @ [nl, nl]
                    @ ''Alternatively, you can say to Siri: \"''
                    @ (if truthy (room (arguments request))
                       then ''turn on '' @ str (room (arguments request)) @ '' lights''
                       else ''turn on the lights'')
                    @ ''\"''\<rparr>],
              isError = None\<rparr>,
             [''shortcuts run ''
                @ quote (if truthy (room (arguments request))
                         then str (room (arguments request)) @ '' Lights On''
                         else ''Lights On'')])"
      by (simp only: handleToolCall_def dispatch_cases(5) [OF n] eq outer_catch_simps reply_def)
  qed
  have c_home_lights_off: "(name request = ''home_lights_off'' \<longrightarrow>
          handleToolCall env request =
            (\<lparr>content = [\<lparr>type = ''text'',
                text = ''To turn off lights''
                    @ (if truthy (room (arguments request))
                       then '' in '' @ str (room (arguments request)) else [])
                    @ '', create a Shortcut named \"''
                    @ (if truthy (room (arguments request))
                       then str (room (arguments request)) @ '' Lights Off'' else ''Lights Off'')
                    @ ''\" that controls your HomeKit lights.'' @ [nl, nl]
                    @ ''Alternatively, you can say to Siri: \"''
                    @ (if truthy (room (arguments request))
                       then ''turn off '' @ str (room (arguments request)) @ '' lights''
                       else ''turn off the lights'')
                    @ ''\"''\<rparr>],
              isError = None\<rparr>,
             [''shortcuts run ''
                @ quote (if truthy (room (arguments request))
                         then str (room (arguments request)) @ '' Lights Off''
                         else ''Lights Off'')]))"
  proof
    assume n: "name request = ''home_lights_off''"
    from f have "\<forall>c \<in> set (snd (home_lights_off env (arguments request))). \<exists>e. env c = Throws e"
      by (simp only: dispatch_cases(6) [OF n])
    then have eq: "home_lights_off env (arguments request) = (Inr (reply (''To turn off lights''
                    @ (if truthy (room (arguments request))
                       then '' in '' @ str (room (arguments request)) else [])
                    @ '', create a Shortcut named \"''
                    @ (if truthy (room (arguments request))
                       then str (room (arguments request)) @ '' Lights Off'' else ''Lights Off'')
                    @ ''\" that controls your HomeKit lights.'' @ [nl, nl]
                    @ ''Alternatively, you can say to Siri: \"''
                    @ (if truthy (room (arguments request))
                       then ''turn off '' @ str (room (arguments request)) @ '' lights''
                       else ''turn off the lights'')
                    @ ''\"'')), [''shortcuts run ''
                @ quote (if truthy (room (arguments request))
                         then str (room (arguments request)) @ '' Lights Off''
                         else ''Lights Off'')])"
      by (rule lights_off_failed)
    show "handleToolCall env request =
            (\<lparr>content = [\<lparr>type = ''text'',
                text = ''To turn off lights''
                    @ (if truthy (room (arguments request))
                       then '' in '' @ str (room (arguments request)) else [])
                    @ '', create a Shortcut named \"''
                    @ (if truthy (room (arguments request))
                       then str (room (arguments request)) @ '' Lights Off'' else ''Lights Off'')
                    @ ''\" that controls your HomeKit lights.'' @ [nl, nl]
                    @ ''Alternatively, you can say to Siri: \"''
                    @ (if truthy (room (arguments request))
                       then ''turn off '' @ str (room (arguments request)) @ '' lights''
                       else ''turn off the lights'')
                    @ ''\"''\<rparr>],
              isError = None\<rparr>,
             [''shortcuts run ''
                @ quote (if truthy (room (arguments request))
                         then str (room (arguments request)) @ '' Lights Off''
                         else ''Lights Off'')])"
      by (simp only: handleToolCall_def dispatch_cases(6) [OF n] eq outer_catch_simps reply_def)
  qed
  have c_home_set_thermostat: "(name request = ''home_set_thermostat'' \<longrightarrow>
          handleToolCall env request =
            (\<lparr>content = [\<lparr>type = ''text'',
                text = ''To set thermostat to '' @ num (temperature (arguments request)) @ [degree]
                    @ (if (case unit (arguments request) of
                             None \<Rightarrow> ''fahrenheit'' | Some u \<Rightarrow> u) = ''celsius''
                       then ''C'' else ''F'')
                    @ '', create a Shortcut named \"Set Thermostat\" that controls your HomeKit thermostat.''
                    @ [nl, nl]
                    @ ''Alternatively, you can say to Siri: \"Set the thermostat to ''
                    @ (num (temperature (arguments request)) @ '' degrees ''
                        @ (case unit (arguments request) of
                             None \<Rightarrow> ''fahrenheit'' | Some u \<Rightarrow> u))
                    @ ''\"''\<rparr>],
              isError = None\<rparr>,
             [''shortcuts run '' @ quote ''Set Thermostat'' @ '' -i ''
                @ quote (num (temperature (arguments request)) @ '' degrees ''
                    @ (case unit (arguments request) of
                         None \<Rightarrow> ''fahrenheit'' | Some u \<Rightarrow> u))]))"
  proof
    assume n: "name request = ''home_set_thermostat''"
    from f have "\<forall>c \<in> set (snd (home_set_thermostat env (arguments request))). \<exists>e. env c = Throws e"
      by (simp only: dispatch_cases(7) [OF n])
    then have eq: "home_set_thermostat env (arguments request) = (Inr (reply (''To set thermostat to '' @ num (temperature (arguments request)) @ [degree]
                    @ (if (case unit (arguments request) of
                             None \<Rightarrow> ''fahrenheit'' | Some u \<Rightarrow> u) = ''celsius''
                       then ''C'' else ''F'')
                    @ '', create a Shortcut named \"Set Thermostat\" that controls your HomeKit thermostat.''
                    @ [nl, nl]
                    @ ''Alternatively, you can say to Siri: \"Set the thermostat to ''
                    @ (num (temperature (arguments request)) @ '' degrees ''
                        @ (case unit (arguments request) of
                             None \<Rightarrow> ''fahrenheit'' | Some u \<Rightarrow> u))
                    @ ''\"'')), [''shortcuts run '' @ quote ''Set Thermostat'' @ '' -i ''
                @ quote (num (temperature (arguments request)) @ '' degrees ''
                    @ (case unit (arguments request) of
                         None \<Rightarrow> ''fahrenheit'' | Some u \<Rightarrow> u))])"
      by (rule set_thermostat_failed)
    show "handleToolCall env request =
            (\<lparr>content = [\<lparr>type = ''text'',
                text = ''To set thermostat to '' @ num (temperature (arguments request)) @ [degree]
                    @ (if (case unit (arguments request) of
                             None \<Rightarrow> ''fahrenheit'' | Some u \<Rightarrow> u) = ''celsius''
                       then ''C'' else ''F'')
                    @ '', create a Shortcut named \"Set Thermostat\" that controls your HomeKit thermostat.''
                    @ [nl, nl]
                    @ ''Alternatively, you can say to Siri: \"Set the thermostat to ''
                    @ (num (temperature (arguments request)) @ '' degrees ''
                        @ (case unit (arguments request) of
                             None \<Rightarrow> ''fahrenheit'' | Some u \<Rightarrow> u))
                    @ ''\"''\<rparr>],
              isError = None\<rparr>,
             [''shortcuts run '' @ quote ''Set Thermostat'' @ '' -i ''
                @ quote (num (temperature (arguments request)) @ '' degrees ''
                    @ (case unit (arguments request) of
                         None \<Rightarrow> ''fahrenheit'' | Some u \<Rightarrow> u))])"
      by (simp only: handleToolCall_def dispatch_cases(7) [OF n] eq outer_catch_simps reply_def)
  qed
  have c_home_lock_doors: "(name request = ''home_lock_doors'' \<longrightarrow>
          handleToolCall env request =
            (\<lparr>content = [\<lparr>type = ''text'',
                text = ''To lock doors, create a Shortcut named \"Lock Doors\" that controls your HomeKit locks.''
                    @ [nl, nl] @ ''Alternatively, you can say to Siri: \"Lock all doors\"''\<rparr>],
              isError = None\<rparr>,
             [''shortcuts run '' @ quote ''Lock Doors'']))"
  proof
    assume n: "name request = ''home_lock_doors''"
    from f have "\<forall>c \<in> set (snd (home_lock_doors env)). \<exists>e. env c = Throws e"
      by (simp only: dispatch_cases(8) [OF n])
    then have eq: "home_lock_doors env = (Inr (reply (''To lock doors, create a Shortcut named \"Lock Doors\" that controls your HomeKit locks.''
                    @ [nl, nl] @ ''Alternatively, you can say to Siri: \"Lock all doors\"'')), [''shortcuts run '' @ quote ''Lock Doors''])"
      by (rule lock_doors_failed)
    show "handleToolCall env request =
            (\<lparr>content = [\<lparr>type = ''text'',
                text = ''To lock doors, create a Shortcut named \"Lock Doors\" that controls your HomeKit locks.''
                    @ [nl, nl] @ ''Alternatively, you can say to Siri: \"Lock all doors\"''\<rparr>],
              isError = None\<rparr>,
             [''shortcuts run '' @ quote ''Lock Doors''])"
      by (simp only: handleToolCall_def dispatch_cases(8) [OF n] eq outer_catch_simps reply_def)
  qed
  have c_home_unlock_doors: "(name request = ''home_unlock_doors'' \<longrightarrow>
          handleToolCall env request =
            (\<lparr>content = [\<lparr>type = ''text'',
                text = ''To unlock doors, create a Shortcut named \"Unlock Doors\" that controls your HomeKit locks.''
                    @ [nl, nl] @ ''Alternatively, you can say to Siri: \"Unlock all doors\"''\<rparr>],
              isError = None\<rparr>,
             [''shortcuts run '' @ quote ''Unlock Doors'']))"
  proof
    assume n: "name request = ''home_unlock_doors''"
    from f have "\<forall>c \<in> set (snd (home_unlock_doors env)). \<exists>e. env c = Throws e"
      by (simp only: dispatch_cases(9) [OF n])
    then have eq: "home_unlock_doors env = (Inr (reply (''To unlock doors, create a Shortcut named \"Unlock Doors\" that controls your HomeKit locks.''
                    @ [nl, nl] @ ''Alternatively, you can say to Siri: \"Unlock all doors\"'')), [''shortcuts run '' @ quote ''Unlock Doors''])"
      by (rule unlock_doors_failed)
    show "handleToolCall env request =
            (\<lparr>content = [\<lparr>type = ''text'',
                text = ''To unlock doors, create a Shortcut named \"Unlock Doors\" that controls your HomeKit locks.''
                    @ [nl, nl] @ ''Alternatively, you can say to Siri: \"Unlock all doors\"''\<rparr>],
              isError = None\<rparr>,
             [''shortcuts run '' @ quote ''Unlock Doors''])"
      by (simp only: handleToolCall_def dispatch_cases(9) [OF n] eq outer_catch_simps reply_def)
  qed
  have c_home_open: "(name request = ''home_open'' \<longrightarrow>
          (\<exists>e. env (''osascript -e '' @ quote ''tell application \"Home\" to activate'') = Throws e
             \<and> handleToolCall env request =
                 (\<lparr>content = [\<lparr>type = ''text'',
                     text = ''Error: AppleScript error: '' @ diagnostic e\<rparr>],
                   isError = Some True\<rparr>,
                  [''osascript -e '' @ quote ''tell application \"Home\" to activate''])))"
  proof
    assume n: "name request = ''home_open''"
    from f have "\<forall>c \<in> set (snd (home_open env)). \<exists>e. env c = Throws e"
      by (simp only: dispatch_cases(1) [OF n])
    from open_failed [OF this, unfolded failure_def]
    show "\<exists>e. env (''osascript -e '' @ quote ''tell application \"Home\" to activate'') = Throws e
             \<and> handleToolCall env request =
                 (\<lparr>content = [\<lparr>type = ''text'',
                     text = ''Error: AppleScript error: '' @ diagnostic e\<rparr>],
                   isError = Some True\<rparr>,
                  [''osascript -e '' @ quote ''tell application \"Home\" to activate''])"
      by (simp only: handleToolCall_def dispatch_cases(1) [OF n])
  qed
  have c_home_get_status: "(name request = ''home_get_status'' \<longrightarrow>
          (\<exists>e. env (''osascript -e '' @ quote ''tell application \"Home\" to activate'') = Throws e
             \<and> handleToolCall env request =
                 (\<lparr>content = [\<lparr>type = ''text'',
                     text = ''Error: AppleScript error: '' @ diagnostic e\<rparr>],
                   isError = Some True\<rparr>,
                  [''osascript -e '' @ quote ''tell application \"Home\" to activate''])))"
  proof
    assume n: "name request = ''home_get_status''"
    from f have "\<forall>c \<in> set (snd (home_get_status env)). \<exists>e. env c = Throws e"
      by (simp only: dispatch_cases(10) [OF n])
    from get_status_failed [OF this, unfolded failure_def]
    show "\<exists>e. env (''osascript -e '' @ quote ''tell application \"Home\" to activate'') = Throws e
             \<and> handleToolCall env request =
                 (\<lparr>content = [\<lparr>type = ''text'',
                     text = ''Error: AppleScript error: '' @ diagnostic e\<rparr>],
                   isError = Some True\<rparr>,
                  [''osascript -e '' @ quote ''tell application \"Home\" to activate''])"
      by (simp only: handleToolCall_def dispatch_cases(10) [OF n])
  qed
  have c_list: "(name request = ''home_list_shortcuts'' \<longrightarrow>
          handleToolCall env request =
            (\<lparr>content = [\<lparr>type = ''text'',
                text = ''Error listing shortcuts. Make sure Shortcuts app is available.''\<rparr>],
              isError = Some True\<rparr>,
             [''shortcuts list'']))"
  proof
    assume n: "name request = ''home_list_shortcuts''"
    from f have "\<forall>c \<in> set (snd (home_list_shortcuts env (arguments request))).
        \<exists>e. env c = Throws e"
      by (simp only: dispatch_cases(4) [OF n])
    then have eq: "home_list_shortcuts env (arguments request) =
        (Inr (failure ''Error listing shortcuts. Make sure Shortcuts app is available.''),
         [''shortcuts list''])"
      by (rule list_shortcuts_failed)
    show "handleToolCall env request =
            (\<lparr>content = [\<lparr>type = ''text'',
                text = ''Error listing shortcuts. Make sure Shortcuts app is available.''\<rparr>],
              isError = Some True\<rparr>,
             [''shortcuts list''])"
      by (simp only: handleToolCall_def dispatch_cases(4) [OF n] eq outer_catch_simps failure_def)
  qed
  have c_control: "(name request = ''home_control_device'' \<longrightarrow>
          invoked env request =
            (case shortcutName (arguments request) of
               None \<Rightarrow> []
             | Some n \<Rightarrow>
                 [''shortcuts run '' @ quote n
                    @ (if truthy (action (arguments request))
                       then '' -i '' @ quote (str (action (arguments request))) else [])]))"
  proof
    assume n: "name request = ''home_control_device''"
    show "invoked env request =
            (case shortcutName (arguments request) of
               None \<Rightarrow> []
             | Some n \<Rightarrow>
                 [''shortcuts run '' @ quote n
                    @ (if truthy (action (arguments request))
                       then '' -i '' @ quote (str (action (arguments request))) else [])])"
      by (simp only: inv dispatch_cases(3) [OF n] control_device_ran)
  qed
  show ?thesis
    by (rule conjI [OF flags [THEN conjunct1] conjI [OF flags [THEN conjunct2]
      conjI [OF c_home_run_scene conjI [OF c_home_lights_on conjI [OF c_home_lights_off
      conjI [OF c_home_set_thermostat conjI [OF c_home_lock_doors conjI [OF c_home_unlock_doors
      conjI [OF c_home_open conjI [OF c_home_get_status conjI [OF c_list c_control]]]]]]]]]]])
qed


theorem failure_partition_witness:
  "invoked (mockThrow \<lparr>message = ''Shortcut not found'', stderr = None\<rparr>)
       \<lparr>name = ''home_lock_doors'', arguments = no_arguments\<rparr>
     = [''shortcuts run '' @ quote ''Lock Doors'']
   \<and> respond (mockThrow \<lparr>message = ''Shortcut not found'', stderr = None\<rparr>)
       \<lparr>name = ''home_lock_doors'', arguments = no_arguments\<rparr>
     = \<lparr>content = [\<lparr>type = ''text'',
          text = ''To lock doors, create a Shortcut named \"Lock Doors\" that controls your HomeKit locks.\<newline>\<newline>Alternatively, you can say to Siri: \"Lock all doors\"''\<rparr>],
        isError = None\<rparr>
   \<and> invoked (mockThrow \<lparr>message = ''Shortcut not found'', stderr = None\<rparr>)
       \<lparr>name = ''home_open'', arguments = no_arguments\<rparr>
     = [''osascript -e '' @ quote ''tell application \"Home\" to activate'']
   \<and> respond (mockThrow \<lparr>message = ''Shortcut not found'', stderr = None\<rparr>)
       \<lparr>name = ''home_open'', arguments = no_arguments\<rparr>
     = \<lparr>content = [\<lparr>type = ''text'',
          text = ''Error: AppleScript error: Shortcut not found''\<rparr>],
        isError = Some True\<rparr>"
proof -
  let ?env = "mockThrow \<lparr>message = ''Shortcut not found'', stderr = None\<rparr>"
  let ?lock = "\<lparr>name = ''home_lock_doors'', arguments = no_arguments\<rparr>"
  let ?open = "\<lparr>name = ''home_open'', arguments = no_arguments\<rparr>"
  have f: "\<forall>command \<in> set (invoked ?env r). \<exists>e. ?env command = Throws e" for r
    by simp
  have a: "name ?lock \<in> set operations" and b: "name ?open \<in> set operations"
    by (simp_all add: operations_def)
  show ?thesis
    using failure_partition [of ?env ?lock, OF f a] failure_partition [of ?env ?open, OF f b]
    by (simp add: invoked_def respond_def diagnostic_def)
qed

section \<open>Unknown operations (C3)\<close>

text \<open>
  C3. A request whose name is none of the ten operations is answered, without running any
  command, by the single text block \<^verbatim>\<open>Unknown tool: <name>\<close> with \<open>isError: true\<close>.
  The witness is the request named \<^verbatim>\<open>not_a_real_tool\<close>.
\<close>

theorem unknown_tool:
  "name request \<notin> set operations \<Longrightarrow>
   handleToolCall env request =
     (\<lparr>content = [\<lparr>type = ''text'', text = ''Unknown tool: '' @ name request\<rparr>],
       isError = Some True\<rparr>, [])"
  by (simp add: handleToolCall_def dispatch_default failure_def)

theorem unknown_tool_witness:
  "''not_a_real_tool'' \<notin> set operations \<and>
   handleToolCall (mockReturnValue []) \<lparr>name = ''not_a_real_tool'', arguments = no_arguments\<rparr> =
     (\<lparr>content = [\<lparr>type = ''text'', text = ''Unknown tool: not_a_real_tool''\<rparr>],
       isError = Some True\<rparr>, [])"
proof -
  have n: "name \<lparr>name = ''not_a_real_tool'', arguments = no_arguments\<rparr> \<notin> set operations"
    by (simp add: operations_def)
  show ?thesis
    using n unknown_tool [OF n, of "mockReturnValue []"] by simp
qed

section \<open>The thermostat (C4, C10)\<close>

text \<open>
  C4. For \<^verbatim>\<open>home_set_thermostat\<close> the unit is \<^verbatim>\<open>fahrenheit\<close> when the argument is missing.
  The one command run is \<^verbatim>\<open>shortcuts run 'Set Thermostat' -i <quoted payload>\<close> with the
  payload \<^verbatim>\<open><temperature> degrees <unit>\<close>, which the shell reads back unchanged. On
  success the text is \<^verbatim>\<open>Thermostat set to <temperature>\<close>, the degree sign, and \<open>C\<close> for
  the unit \<^verbatim>\<open>celsius\<close>, else \<open>F\<close>; on failure it is the guidance text with the same
  rendering and the payload. In the payload and in both texts the temperature is the
  decimal numeral of the number given, whatever the unit: nothing is converted. The
  witness holds the two examples, 72 without a unit and 22 with \<^verbatim>\<open>celsius\<close>.
\<close>

theorem thermostat_formatting:
  "let unit' = (case unit args of None \<Rightarrow> ''fahrenheit'' | Some u \<Rightarrow> u);
       payload = num (temperature args) @ '' degrees '' @ unit';
       command = ''shortcuts run '' @ quote ''Set Thermostat'' @ '' -i '' @ quote payload;
       request = \<lparr>name = ''home_set_thermostat'', arguments = args\<rparr>
   in invoked env request = [command]
      \<and> sh_literal Bare (quote payload) = Some payload
      \<and> respond env request =
          (case env command of
             Returns out \<Rightarrow>
               \<lparr>content = [\<lparr>type = ''text'',
                   text = ''Thermostat set to '' @ num (temperature args) @ [degree]
                     @ (if unit' = ''celsius'' then ''C'' else ''F'')\<rparr>],
                isError = None\<rparr>
           | Throws e \<Rightarrow>
               \<lparr>content = [\<lparr>type = ''text'',
                   text = ''To set thermostat to '' @ num (temperature args) @ [degree]
                     @ (if unit' = ''celsius'' then ''C'' else ''F'')
                     @ '', create a Shortcut named \"Set Thermostat\" that controls your HomeKit thermostat.''
                     @ [nl, nl]
                     @ ''Alternatively, you can say to Siri: \"Set the thermostat to ''
                     @ payload @ ''\"''\<rparr>],
                isError = None\<rparr>)
      \<and> (\<forall>t. temperature args = Some t \<longrightarrow>
            num (temperature args) = numberToString t
            \<and> decimalValue (numberToString t) = Some (integer_value t))"
  unfolding Let_def
proof (intro conjI allI impI)
  let ?u = "case unit args of None \<Rightarrow> ''fahrenheit'' | Some u \<Rightarrow> u"
  let ?c = "''shortcuts run '' @ quote ''Set Thermostat'' @ '' -i ''
      @ quote (num (temperature args) @ '' degrees '' @ ?u)"
  show "invoked env \<lparr>name = ''home_set_thermostat'', arguments = args\<rparr> = [?c]"
    by (cases "env ?c")
      (simp_all add: invoked_def handle_set_thermostat set_thermostat_eq Let_def)
  show "sh_literal Bare (quote (num (temperature args) @ '' degrees '' @ ?u))
      = Some (num (temperature args) @ '' degrees '' @ ?u)"
    by (rule sh_literal_quote)
  show "respond env \<lparr>name = ''home_set_thermostat'', arguments = args\<rparr> =
      (case env ?c of
         Returns out \<Rightarrow>
           \<lparr>content = [\<lparr>type = ''text'',
               text = ''Thermostat set to '' @ num (temperature args) @ [degree]
                 @ (if ?u = ''celsius'' then ''C'' else ''F'')\<rparr>],
            isError = None\<rparr>
       | Throws e \<Rightarrow>
           \<lparr>content = [\<lparr>type = ''text'',
               text = ''To set thermostat to '' @ num (temperature args) @ [degree]
                 @ (if ?u = ''celsius'' then ''C'' else ''F'')
                 @ '', create a Shortcut named \"Set Thermostat\" that controls your HomeKit thermostat.''
                 @ [nl, nl]
                 @ ''Alternatively, you can say to Siri: \"Set the thermostat to ''
                 @ (num (temperature args) @ '' degrees '' @ ?u) @ ''\"''\<rparr>],
            isError = None\<rparr>)"
    by (cases "env ?c")
      (simp_all add: respond_def handle_set_thermostat set_thermostat_eq Let_def reply_def)
next
  fix t
  assume "temperature args = Some t"
  then show "num (temperature args) = numberToString t" by simp
next
  fix t
  show "decimalValue (numberToString t) = Some (integer_value t)"
    by (rule decimalValue_numberToString)
qed

theorem thermostat_formatting_witness:
  "handleToolCall (mockReturnValue [])
       \<lparr>name = ''home_set_thermostat'', arguments = no_arguments\<lparr>temperature := Some (SafeInteger 72)\<rparr>\<rparr>
     = (\<lparr>content = [\<lparr>type = ''text'', text = ''Thermostat set to 72'' @ [degree] @ ''F''\<rparr>],
         isError = None\<rparr>,
        [''shortcuts run '' @ quote ''Set Thermostat'' @ '' -i '' @ quote ''72 degrees fahrenheit''])
   \<and> handleToolCall (mockReturnValue [])
       \<lparr>name = ''home_set_thermostat'',
        arguments = no_arguments\<lparr>temperature := Some (SafeInteger 22), unit := Some ''celsius''\<rparr>\<rparr>
     = (\<lparr>content = [\<lparr>type = ''text'', text = ''Thermostat set to 22'' @ [degree] @ ''C''\<rparr>],
         isError = None\<rparr>,
        [''shortcuts run '' @ quote ''Set Thermostat'' @ '' -i '' @ quote ''22 degrees celsius''])
   \<and> respond (mockThrow \<lparr>message = ''Shortcut not found'', stderr = None\<rparr>)
       \<lparr>name = ''home_set_thermostat'',
        arguments = no_arguments\<lparr>temperature := Some (SafeInteger 22), unit := Some ''celsius''\<rparr>\<rparr>
     = \<lparr>content = [\<lparr>type = ''text'',
          text = ''To set thermostat to 22'' @ [degree]
            @ ''C, create a Shortcut named \"Set Thermostat\" that controls your HomeKit thermostat.\<newline>\<newline>Alternatively, you can say to Siri: \"Set the thermostat to 22 degrees celsius\"''\<rparr>],
        isError = None\<rparr>
   \<and> decimalValue ''72'' = Some 72
   \<and> integer_value (SafeInteger 72) = 72"
  using thermostat_formatting [of "no_arguments\<lparr>temperature := Some (SafeInteger 72)\<rparr>"
      "mockReturnValue []"]
    thermostat_formatting [of
      "no_arguments\<lparr>temperature := Some (SafeInteger 22), unit := Some ''celsius''\<rparr>"
      "mockReturnValue []"]
    thermostat_formatting [of
      "no_arguments\<lparr>temperature := Some (SafeInteger 22), unit := Some ''celsius''\<rparr>"
      "mockThrow \<lparr>message = ''Shortcut not found'', stderr = None\<rparr>"]
  by (simp add: Let_def invoked_def respond_def prod_eq_iff no_arguments_def digits_72 digits_22
      SafeInteger_inverse)

text \<open>
  C10. The unit is not validated. For every unit string other than exactly \<^verbatim>\<open>celsius\<close>
  the confirmation and the guidance text render the unit as \<open>F\<close>, while the payload of
  the command, and the phrase of the guidance, carry the caller's unit string as it is.
\<close>

theorem thermostat_unit_not_validated:
  assumes "unit args = Some u" and "u \<noteq> ''celsius''"
  shows "let payload = num (temperature args) @ '' degrees '' @ u;
             command = ''shortcuts run '' @ quote ''Set Thermostat'' @ '' -i '' @ quote payload;
             request = \<lparr>name = ''home_set_thermostat'', arguments = args\<rparr>
         in invoked env request = [command]
            \<and> respond env request =
                (case env command of
                   Returns out \<Rightarrow>
                     \<lparr>content = [\<lparr>type = ''text'',
                         text = ''Thermostat set to '' @ num (temperature args) @ [degree] @ ''F''\<rparr>],
                      isError = None\<rparr>
                 | Throws e \<Rightarrow>
                     \<lparr>content = [\<lparr>type = ''text'',
                         text = ''To set thermostat to '' @ num (temperature args) @ [degree] @ ''F''
                           @ '', create a Shortcut named \"Set Thermostat\" that controls your HomeKit thermostat.''
                           @ [nl, nl]
                           @ ''Alternatively, you can say to Siri: \"Set the thermostat to ''
                           @ payload @ ''\"''\<rparr>],
                      isError = None\<rparr>)"
  using assms
  by (cases "env (''shortcuts run '' @ quote ''Set Thermostat'' @ '' -i ''
        @ quote (num (temperature args) @ '' degrees '' @ u))")
    (simp_all add: Let_def invoked_def respond_def handle_set_thermostat set_thermostat_eq
      reply_def)

theorem thermostat_unit_not_validated_witness:
  "''Celsius'' \<noteq> ''celsius''
   \<and> handleToolCall (mockReturnValue [])
       \<lparr>name = ''home_set_thermostat'',
        arguments = no_arguments\<lparr>temperature := Some (SafeInteger 22), unit := Some ''Celsius''\<rparr>\<rparr>
     = (\<lparr>content = [\<lparr>type = ''text'', text = ''Thermostat set to 22'' @ [degree] @ ''F''\<rparr>],
         isError = None\<rparr>,
        [''shortcuts run '' @ quote ''Set Thermostat'' @ '' -i '' @ quote ''22 degrees Celsius''])"
proof -
  have u: "unit (no_arguments\<lparr>temperature := Some (SafeInteger 22), unit := Some ''Celsius''\<rparr>) = Some ''Celsius''"
    and c: "''Celsius'' \<noteq> ''celsius''"
    by simp_all
  show ?thesis
    using thermostat_unit_not_validated [OF u c, of "mockReturnValue []"]
    by (simp add: Let_def invoked_def respond_def prod_eq_iff no_arguments_def digits_22)
qed

section \<open>Listing the shortcuts (C5)\<close>

text \<open>
  C5, as the code has it. When \<^verbatim>\<open>shortcuts list\<close> succeeds and the filter argument is
  missing or a non-empty string, the lines kept are those of \<^const>\<open>spec_lines\<close>: an empty
  result gives an explanatory text, a non-empty one the header \<^verbatim>\<open>Available Shortcuts:\<close>
  and the lines joined by newlines, in both cases without \<open>isError\<close>. An empty filter
  string is handled as a missing filter. The witness holds the example of the five lines,
  without a filter and with the filter \<^verbatim>\<open>lights\<close>.
\<close>

theorem list_shortcuts_filter:
  assumes "env ''shortcuts list'' = Returns out"
  shows "(filter_arg args \<noteq> Some [] \<longrightarrow>
            respond env \<lparr>name = ''home_list_shortcuts'', arguments = args\<rparr> =
              \<lparr>content = [\<lparr>type = ''text'',
                  text =
                    (if spec_lines (filter_arg args) out = []
                     then (case filter_arg args of
                             Some f \<Rightarrow> ''No shortcuts found matching: '' @ toLowerCase f
                           | None \<Rightarrow> ''No Home-related shortcuts found. Create Shortcuts in the Shortcuts app to control your Home devices.'')
                     else ''Available Shortcuts:'' @ [nl]
                            @ join_lines (spec_lines (filter_arg args) out))\<rparr>],
               isError = None\<rparr>)
       \<and> handleToolCall env \<lparr>name = ''home_list_shortcuts'', arguments = args\<lparr>filter_arg := Some []\<rparr>\<rparr>
           = handleToolCall env \<lparr>name = ''home_list_shortcuts'', arguments = args\<lparr>filter_arg := None\<rparr>\<rparr>"
proof (intro conjI impI)
  assume ne: "filter_arg args \<noteq> Some []"
  show "respond env \<lparr>name = ''home_list_shortcuts'', arguments = args\<rparr> =
      \<lparr>content = [\<lparr>type = ''text'',
          text =
            (if spec_lines (filter_arg args) out = []
             then (case filter_arg args of
                     Some f \<Rightarrow> ''No shortcuts found matching: '' @ toLowerCase f
                   | None \<Rightarrow> ''No Home-related shortcuts found. Create Shortcuts in the Shortcuts app to control your Home devices.'')
             else ''Available Shortcuts:'' @ [nl]
                    @ join_lines (spec_lines (filter_arg args) out))\<rparr>],
       isError = None\<rparr>"
  proof (cases "filter_arg args")
    case None
    then show ?thesis
      using homeRelated_spec [of None out]
      by (simp add: respond_def handle_list_shortcuts list_shortcuts_eq [of env out, OF assms] reply_def)
  next
    case (Some f)
    with ne have "f \<noteq> []" by simp
    with Some show ?thesis
      using homeRelated_spec [of "Some f" out]
      by (simp add: respond_def handle_list_shortcuts list_shortcuts_eq [of env out, OF assms] reply_def)
  qed
next
  show "handleToolCall env \<lparr>name = ''home_list_shortcuts'', arguments = args\<lparr>filter_arg := Some []\<rparr>\<rparr>
      = handleToolCall env \<lparr>name = ''home_list_shortcuts'', arguments = args\<lparr>filter_arg := None\<rparr>\<rparr>"
    by (simp add: handle_list_shortcuts list_shortcuts_eq [of env out, OF assms] homeRelated_empty_filter)
qed

theorem list_shortcuts_filter_witness:
  "respond (mockReturnValue ''Lights On\<newline>Lights Off\<newline>Lock Doors\<newline>Unrelated\<newline>Bedroom Scene'')
       \<lparr>name = ''home_list_shortcuts'', arguments = no_arguments\<rparr>
     = \<lparr>content = [\<lparr>type = ''text'',
          text = ''Available Shortcuts:\<newline>Lights On\<newline>Lights Off\<newline>Lock Doors\<newline>Bedroom Scene''\<rparr>],
        isError = None\<rparr>
   \<and> respond (mockReturnValue ''Lights On\<newline>Lights Off\<newline>Lock Doors\<newline>Unrelated\<newline>Bedroom Scene'')
       \<lparr>name = ''home_list_shortcuts'', arguments = no_arguments\<lparr>filter_arg := Some ''lights''\<rparr>\<rparr>
     = \<lparr>content = [\<lparr>type = ''text'',
          text = ''Available Shortcuts:\<newline>Lights On\<newline>Lights Off''\<rparr>],
        isError = None\<rparr>"
proof -
  let ?out = "''Lights On\<newline>Lights Off\<newline>Lock Doors\<newline>Unrelated\<newline>Bedroom Scene''"
  show ?thesis
    using list_shortcuts_filter [of "mockReturnValue ?out" ?out no_arguments, THEN conjunct1]
      list_shortcuts_filter [of "mockReturnValue ?out" ?out
        "no_arguments\<lparr>filter_arg := Some ''lights''\<rparr>", THEN conjunct1]
    by (simp add: no_arguments_def spec_lines_example)
qed

text \<open>
  C5, as it is written, fails for the empty filter string: every line contains it, yet
  the unrelated line is not listed, because the handler falls back to the keywords.
\<close>

theorem list_shortcuts_empty_filter_counterexample:
  "spec_lines (Some []) ''Unrelated'' = [''Unrelated'']
   \<and> respond (mockReturnValue ''Unrelated'')
       \<lparr>name = ''home_list_shortcuts'', arguments = no_arguments\<lparr>filter_arg := Some []\<rparr>\<rparr>
     = \<lparr>content = [\<lparr>type = ''text'',
          text = ''No Home-related shortcuts found. Create Shortcuts in the Shortcuts app to control your Home devices.''\<rparr>],
        isError = None\<rparr>
   \<and> respond (mockReturnValue ''Unrelated'')
       \<lparr>name = ''home_list_shortcuts'', arguments = no_arguments\<lparr>filter_arg := Some []\<rparr>\<rparr>
     \<noteq> \<lparr>content = [\<lparr>type = ''text'',
          text = ''Available Shortcuts:'' @ [nl] @ join_lines (spec_lines (Some []) ''Unrelated'')\<rparr>],
        isError = None\<rparr>"
proof -
  have c: "spec_lines (Some []) ''Unrelated'' = [''Unrelated'']"
    and h: "homeRelated (Some []) ''Unrelated'' = []"
    by code_simp+
  show ?thesis
    by (simp add: c h respond_def handle_list_shortcuts
        list_shortcuts_eq [of "mockReturnValue ''Unrelated''" "''Unrelated''"] reply_def
        no_arguments_def)
qed

section \<open>Lights in a room (C6)\<close>

text \<open>
  C6, as the code has it. For \<^verbatim>\<open>home_lights_on\<close> with a non-empty room \<open>r\<close> the one
  command run is \<^verbatim>\<open>shortcuts run\<close> with the quoted name \<^verbatim>\<open><r> Lights On\<close>, the room
  taken as it is; when the command fails the response is the guidance text, without
  \<open>isError\<close>, naming that shortcut and the phrase \<^verbatim>\<open>turn on <r> lights\<close>. Without a room,
  and with the empty string as room, the name is \<^verbatim>\<open>Lights On\<close>. The witness is the room
  \<^verbatim>\<open>living room\<close>.
\<close>

theorem lights_on_room_name:
  "(r \<noteq> [] \<longrightarrow>
      invoked env \<lparr>name = ''home_lights_on'', arguments = args\<lparr>room := Some r\<rparr>\<rparr>
        = [''shortcuts run '' @ quote (r @ '' Lights On'')]
      \<and> sh_literal Bare (quote (r @ '' Lights On'')) = Some (r @ '' Lights On'')
      \<and> (\<forall>e. env (''shortcuts run '' @ quote (r @ '' Lights On'')) = Throws e \<longrightarrow>
            respond env \<lparr>name = ''home_lights_on'', arguments = args\<lparr>room := Some r\<rparr>\<rparr> =
              \<lparr>content = [\<lparr>type = ''text'',
                  text = ''To turn on lights in '' @ r @ '', create a Shortcut named \"''
                    @ r @ '' Lights On'' @ ''\" that controls your HomeKit lights.'' @ [nl, nl]
                    @ ''Alternatively, you can say to Siri: \"'' @ ''turn on '' @ r @ '' lights''
                    @ ''\"''\<rparr>],
               isError = None\<rparr>))
   \<and> invoked env \<lparr>name = ''home_lights_on'', arguments = args\<lparr>room := None\<rparr>\<rparr>
        = [''shortcuts run '' @ quote ''Lights On'']
   \<and> invoked env \<lparr>name = ''home_lights_on'', arguments = args\<lparr>room := Some []\<rparr>\<rparr>
        = [''shortcuts run '' @ quote ''Lights On'']"
proof (intro conjI impI allI)
  show "invoked env \<lparr>name = ''home_lights_on'', arguments = args\<lparr>room := None\<rparr>\<rparr>
        = [''shortcuts run '' @ quote ''Lights On'']"
    by (cases "env (''shortcuts run '' @ quote ''Lights On'')")
      (simp_all add: invoked_def handle_lights_on lights_on_eq Let_def)
  show "invoked env \<lparr>name = ''home_lights_on'', arguments = args\<lparr>room := Some []\<rparr>\<rparr>
        = [''shortcuts run '' @ quote ''Lights On'']"
    by (cases "env (''shortcuts run '' @ quote ''Lights On'')")
      (simp_all add: invoked_def handle_lights_on lights_on_eq Let_def)
next
  assume r: "r \<noteq> []"
  then show "invoked env \<lparr>name = ''home_lights_on'', arguments = args\<lparr>room := Some r\<rparr>\<rparr>
        = [''shortcuts run '' @ quote (r @ '' Lights On'')]"
    by (cases "env (''shortcuts run '' @ quote (r @ '' Lights On''))")
      (simp_all add: invoked_def handle_lights_on lights_on_eq Let_def)
  show "sh_literal Bare (quote (r @ '' Lights On'')) = Some (r @ '' Lights On'')"
    by (rule sh_literal_quote)
  fix e
  assume "env (''shortcuts run '' @ quote (r @ '' Lights On'')) = Throws e"
  with r show "respond env \<lparr>name = ''home_lights_on'', arguments = args\<lparr>room := Some r\<rparr>\<rparr> =
      \<lparr>content = [\<lparr>type = ''text'',
          text = ''To turn on lights in '' @ r @ '', create a Shortcut named \"''
            @ r @ '' Lights On'' @ ''\" that controls your HomeKit lights.'' @ [nl, nl]
            @ ''Alternatively, you can say to Siri: \"'' @ ''turn on '' @ r @ '' lights''
            @ ''\"''\<rparr>],
       isError = None\<rparr>"
    by (simp add: respond_def handle_lights_on lights_on_eq Let_def reply_def)
qed

theorem lights_on_room_name_witness:
  "''living room'' \<noteq> []
   \<and> handleToolCall (mockThrow \<lparr>message = ''Shortcut not found'', stderr = None\<rparr>)
       \<lparr>name = ''home_lights_on'', arguments = no_arguments\<lparr>room := Some ''living room''\<rparr>\<rparr>
     = (\<lparr>content = [\<lparr>type = ''text'',
           text = ''To turn on lights in living room, create a Shortcut named \"living room Lights On\" that controls your HomeKit lights.\<newline>\<newline>Alternatively, you can say to Siri: \"turn on living room lights\"''\<rparr>],
         isError = None\<rparr>,
        [''shortcuts run '' @ [sq] @ ''living room Lights On'' @ [sq]])"
  using lights_on_room_name [of "''living room''"
      "mockThrow \<lparr>message = ''Shortcut not found'', stderr = None\<rparr>" no_arguments]
  by (simp add: invoked_def respond_def prod_eq_iff quote_def)

text \<open>
  C6, as it is written, fails for the empty room string: the name run is
  \<^verbatim>\<open>Lights On\<close>, not \<^verbatim>\<open> Lights On\<close> with a leading space.
\<close>

theorem lights_on_empty_room_counterexample:
  "invoked (mockReturnValue []) \<lparr>name = ''home_lights_on'', arguments = no_arguments\<lparr>room := Some []\<rparr>\<rparr>
     = [''shortcuts run '' @ [sq] @ ''Lights On'' @ [sq]]
   \<and> invoked (mockReturnValue []) \<lparr>name = ''home_lights_on'', arguments = no_arguments\<lparr>room := Some []\<rparr>\<rparr>
     \<noteq> [''shortcuts run '' @ quote ([] @ '' Lights On'')]"
  by (simp add: invoked_def handle_lights_on lights_on_eq Let_def quote_def)

section \<open>The content is never empty (C7)\<close>

text \<open>
  C7. Whatever the request and whatever the external programs do, the response holds
  exactly one block, a text block; so its content is never empty.
\<close>

theorem content_never_empty:
  "content (respond env request) \<noteq> []
   \<and> (\<exists>t. content (respond env request) = [\<lparr>type = ''text'', text = t\<rparr>])"
  using respond_shape [of env request] by (auto simp: reply_def failure_def)

theorem content_never_empty_witness:
  "content (respond (mockThrow \<lparr>message = ''Command failed'', stderr = None\<rparr>)
       \<lparr>name = ''home_get_status'', arguments = no_arguments\<rparr>) \<noteq> []"
  using content_never_empty [of "mockThrow \<lparr>message = ''Command failed'', stderr = None\<rparr>"
      "\<lparr>name = ''home_get_status'', arguments = no_arguments\<rparr>"]
  by simp

section \<open>Diagnostics of a failed shortcut (C8, C9)\<close>

text \<open>
  C8, as the code has it. When the command of \<^verbatim>\<open>home_control_device\<close> fails, the
  diagnostic is the error stream's text when there is one and it is not empty, else the
  error's message; the response has \<open>isError: true\<close> and the text
  \<^verbatim>\<open>Error running shortcut "<name>": Shortcut error: <diagnostic>\<close>.
\<close>

theorem control_device_error_text:
  assumes "shortcutName args = Some n"
    and "env (''shortcuts run '' @ quote n
           @ (if truthy (action args) then '' -i '' @ quote (str (action args)) else [])) = Throws err"
  shows "respond env \<lparr>name = ''home_control_device'', arguments = args\<rparr> =
           \<lparr>content = [\<lparr>type = ''text'',
               text = ''Error running shortcut \"'' @ n @ ''\": Shortcut error: '' @ diagnostic err\<rparr>],
            isError = Some True\<rparr>
       \<and> diagnostic err =
           (case stderr err of
              None \<Rightarrow> message err
            | Some s \<Rightarrow> if s \<noteq> [] then s else message err)"
  using assms
  by (simp add: respond_def handle_control_device home_control_device_def runShortcut_Throws
      Error_def failure_def diagnostic_cases)

theorem control_device_error_text_witness:
  "respond (mockThrow \<lparr>message = ''Command failed'', stderr = Some ''Permission denied''\<rparr>)
       \<lparr>name = ''home_control_device'',
        arguments = no_arguments\<lparr>shortcutName := Some ''Kitchen Light''\<rparr>\<rparr> =
     \<lparr>content = [\<lparr>type = ''text'',
         text = ''Error running shortcut \"Kitchen Light\": Shortcut error: Permission denied''\<rparr>],
      isError = Some True\<rparr>"
  using control_device_error_text [of "no_arguments\<lparr>shortcutName := Some ''Kitchen Light''\<rparr>"
      "''Kitchen Light''"
      "mockThrow \<lparr>message = ''Command failed'', stderr = Some ''Permission denied''\<rparr>"
      "\<lparr>message = ''Command failed'', stderr = Some ''Permission denied''\<rparr>"]
  by (simp add: no_arguments_def diagnostic_def)

text \<open>
  C8, as it is written: the text is not \<^verbatim>\<open>Error running shortcut "<name>": <diagnostic>\<close>;
  \<^verbatim>\<open>runShortcut\<close> puts \<^verbatim>\<open>Shortcut error: \<close> in front of the diagnostic.
\<close>

theorem control_device_error_shape_counterexample:
  "text (hd (content (respond (mockThrow \<lparr>message = ''boom'', stderr = None\<rparr>)
       \<lparr>name = ''home_control_device'', arguments = no_arguments\<lparr>shortcutName := Some ''X''\<rparr>\<rparr>)))
     = ''Error running shortcut \"X\": Shortcut error: boom''
   \<and> diagnostic \<lparr>message = ''boom'', stderr = None\<rparr> = ''boom''
   \<and> text (hd (content (respond (mockThrow \<lparr>message = ''boom'', stderr = None\<rparr>)
       \<lparr>name = ''home_control_device'', arguments = no_arguments\<lparr>shortcutName := Some ''X''\<rparr>\<rparr>)))
     \<noteq> ''Error running shortcut \"X\": '' @ diagnostic \<lparr>message = ''boom'', stderr = None\<rparr>"
  by (simp add: respond_def handle_control_device home_control_device_def runShortcut_Throws
      Error_def failure_def diagnostic_def no_arguments_def)

text \<open>
  C9. For \<^verbatim>\<open>home_control_device\<close> the empty string as action behaves as a missing
  action: the handler gives the same result, the command line is
  \<^verbatim>\<open>shortcuts run <quoted name>\<close> without an \<^verbatim>\<open>-i\<close> part, and on success the text is
  \<^verbatim>\<open>Executed shortcut: <name>\<close>.
\<close>

theorem empty_action_like_absent:
  assumes "shortcutName args = Some n"
  shows "handleToolCall env \<lparr>name = ''home_control_device'', arguments = args\<lparr>action := Some []\<rparr>\<rparr>
           = handleToolCall env \<lparr>name = ''home_control_device'', arguments = args\<lparr>action := None\<rparr>\<rparr>
       \<and> invoked env \<lparr>name = ''home_control_device'', arguments = args\<lparr>action := Some []\<rparr>\<rparr>
           = [''shortcuts run '' @ quote n]
       \<and> (\<forall>out. env (''shortcuts run '' @ quote n) = Returns out \<longrightarrow>
            respond env \<lparr>name = ''home_control_device'', arguments = args\<lparr>action := Some []\<rparr>\<rparr>
              = \<lparr>content = [\<lparr>type = ''text'', text = ''Executed shortcut: '' @ n\<rparr>],
                 isError = None\<rparr>)"
proof -
  have same: "home_control_device env (args\<lparr>action := Some []\<rparr>)
      = home_control_device env (args\<lparr>action := None\<rparr>)"
  proof -
    have rs: "runShortcut env (shortcutName args) (Some []) = runShortcut env (shortcutName args) None"
      by (simp add: runShortcut_def)
    show ?thesis
      by (cases "runShortcut env (shortcutName args) None";
          cases "fst (runShortcut env (shortcutName args) None)")
        (simp_all add: home_control_device_def rs)
  qed
  have ran: "snd (home_control_device env (args\<lparr>action := Some []\<rparr>)) = [''shortcuts run '' @ quote n]"
    using assms
    by (simp add: home_control_device_def runShortcut_def execSync_def
        split: exec_result.split)
  have ok: "env (''shortcuts run '' @ quote n) = Returns out \<Longrightarrow>
      fst (home_control_device env (args\<lparr>action := Some []\<rparr>))
        = Inr (reply (''Executed shortcut: '' @ n))" for out
    using assms
    by (simp add: home_control_device_def runShortcut_def execSync_def)
  show ?thesis
  proof (intro conjI allI impI)
    show "handleToolCall env \<lparr>name = ''home_control_device'', arguments = args\<lparr>action := Some []\<rparr>\<rparr>
           = handleToolCall env \<lparr>name = ''home_control_device'', arguments = args\<lparr>action := None\<rparr>\<rparr>"
      by (simp only: handle_control_device same)
    show "invoked env \<lparr>name = ''home_control_device'', arguments = args\<lparr>action := Some []\<rparr>\<rparr>
           = [''shortcuts run '' @ quote n]"
      using ran
      by (cases "home_control_device env (args\<lparr>action := Some []\<rparr>)";
          cases "fst (home_control_device env (args\<lparr>action := Some []\<rparr>))")
        (simp_all add: invoked_def handle_control_device)
    fix out
    assume "env (''shortcuts run '' @ quote n) = Returns out"
    from ok [OF this]
    show "respond env \<lparr>name = ''home_control_device'', arguments = args\<lparr>action := Some []\<rparr>\<rparr>
              = \<lparr>content = [\<lparr>type = ''text'', text = ''Executed shortcut: '' @ n\<rparr>],
                 isError = None\<rparr>"
      by (cases "home_control_device env (args\<lparr>action := Some []\<rparr>)")
        (simp add: respond_def handle_control_device reply_def)
  qed
qed

theorem empty_action_like_absent_witness:
  "handleToolCall (mockReturnValue []) \<lparr>name = ''home_control_device'',
       arguments = no_arguments\<lparr>shortcutName := Some ''Kitchen Light'', action := Some []\<rparr>\<rparr>
     = (\<lparr>content = [\<lparr>type = ''text'', text = ''Executed shortcut: Kitchen Light''\<rparr>],
         isError = None\<rparr>,
        [''shortcuts run '' @ [sq] @ ''Kitchen Light'' @ [sq]])"
proof -
  have n: "shortcutName (no_arguments\<lparr>shortcutName := Some ''Kitchen Light''\<rparr>)
      = Some ''Kitchen Light''"
    by simp
  show ?thesis
    using empty_action_like_absent [OF n, of "mockReturnValue []", THEN conjunct2]
    by (simp add: invoked_def respond_def prod_eq_iff quote_def)
qed

end
